theory Spec2Isabelle
  imports Main
begin

section \<open>Topic-isolated cache state manager (cache-handlers, version 2.0.0)\<close>

text \<open>
  A shallow embedding of the cache handlers of Desktop Commander MCP: the process-wide
  \<open>cacheState\<close>, the session manifest stored in \<open>session_manifest.json\<close>, the
  permission gate, the eight handlers and the tool-call counter.

  Conventions of the embedding.
  \<^item> An optional string argument (\<open>topic?: string\<close>, \<open>string | null\<close>) is a
    \<open>string option\<close>. JavaScript tests such values for truthiness: \<open>undefined\<close>,
    \<open>null\<close> and the empty string are falsy (\<open>truthy\<close> below).
  \<^item> A timestamp is the millisecond count of a valid \<open>Date\<close>. The source stores the text
    \<open>toISOString()\<close> gives and reads it back with \<open>new Date(s).getTime()\<close>; the model
    keeps the number those two agree on. Each handler reads the clock once (\<open>now\<close>). A
    \<open>Date\<close> computed from a number can be an Invalid Date (\<open>newDate\<close> below).
  \<^item> Counters, intervals and limits are unbounded integers; a fractional
    \<open>updateInterval\<close>, \<open>maxSessions\<close> or \<open>cleanupAfterDays\<close>, which the argument
    schema would let through, is outside the model.
  \<^item> A JavaScript object used as a dictionary is the association list of its own
    properties in the order \<open>Object.entries\<close> and \<open>JSON.stringify\<close> enumerate them.
    Reading \<open>obj[k]\<close> also finds the members every object inherits from
    \<open>Object.prototype\<close>; the properties the code adds to those members are a third
    component of the state, next to the cache state and the file system.
  \<^item> Arguments are the values the argument schemas produce, with their defaults filled
    in; the rejection of malformed arguments happens before the code modelled here.
  \<^item> Every handler is run as one atomic step on the cache state, the file system and
    \<open>Object.prototype\<close>. The module is an ECMAScript module, hence strict-mode code.
  \<^item> \<open>path.join\<close> of Node is a parameter, \<open>pjoin\<close>, of every function that builds paths.
\<close>

subsection \<open>Data model\<close>

type_synonym path = string
type_synonym timestamp = int

definition truthy :: "string option \<Rightarrow> bool" where
  "truthy t = (case t of None \<Rightarrow> False | Some s \<Rightarrow> s \<noteq> [])"

record SessionInfo =
  createdAt :: timestamp
  lastUsed :: timestamp
  projectName :: string
  autoCleanupAfterDays :: "nat option"
  sessionOnly :: bool
  archivedAt :: "timestamp option"

text \<open>An archived record is the object \<open>{...sessionInfo, archivedAt: now}\<close>. The spread
  copies the own enumerable properties of \<open>sessionInfo\<close>: the members of a session entry;
  of an object or function inherited from \<open>Object.prototype\<close>, its \<open>lastUsed\<close> if the
  code has given it one; of an inherited text, one member per character.\<close>

datatype ArchivedInfo =
    ArchivedSession SessionInfo
  | ArchivedObject "timestamp option" timestamp
  | ArchivedText timestamp timestamp

record SessionManifest =
  activeSessions :: "(string \<times> SessionInfo) list"
  archivedSessions :: "(string \<times> ArchivedInfo) list option"
  manifestVersion :: string

record CacheState =
  isInitialized :: bool
  cacheDir :: string
  currentTopic :: "string option"
  autoUpdateEnabled :: bool
  toolCallCount :: nat
  updateInterval :: int
  lastUpdate :: "timestamp option"
  activeTopic :: "string option"
  hasCreatePermission :: bool
  permissionGrantedAt :: "timestamp option"
  topicAutoUpdateSettings :: "string \<rightharpoonup> bool"

definition initialCacheState :: CacheState where
  "initialCacheState =
     \<lparr> isInitialized = False, cacheDir = ''C:'' @ [CHR 0x5C] @ ''Claude_Session'', currentTopic = None,
       autoUpdateEnabled = False, toolCallCount = 0, updateInterval = 10, lastUpdate = None,
       activeTopic = None, hasCreatePermission = False, permissionGrantedAt = None,
       topicAutoUpdateSettings = Map.empty \<rparr>"

subsection \<open>JavaScript objects as dictionaries\<close>

text \<open>The own properties of an object are enumerated with the array indices first, in
  ascending numeric order, then the other keys in the order they were added. An array
  index is the canonical decimal text of an integer below \<open>2^32 - 1\<close>.\<close>

definition decimal :: "string \<Rightarrow> int" where
  "decimal k = foldl (\<lambda>n c. 10 * n + (of_char c - 48)) 0 k"

definition arrayIndex :: "string \<Rightarrow> int option" where
  "arrayIndex k =
     (if k \<noteq> [] \<and> list_all (\<lambda>c. c \<in> set ''0123456789'') k \<and> (k = ''0'' \<or> hd k \<noteq> CHR ''0'')
         \<and> decimal k < 4294967295
      then Some (decimal k) else None)"

text \<open>\<open>obj[k] = v\<close> replaces the value of an own key in place. A new key \<open>__proto__\<close>
  is not stored: the assignment runs the setter of \<open>Object.prototype\<close>, which changes
  the prototype of \<open>obj\<close> and leaves its own properties as they are (no handler reads
  \<open>obj\<close> again after an assignment; it only serialises the own properties). Any other
  new key is added at its place in the enumeration order. \<open>delete obj[k]\<close> removes the
  key.\<close>

fun obj_replace :: "string \<Rightarrow> 'v \<Rightarrow> (string \<times> 'v) list \<Rightarrow> (string \<times> 'v) list" where
  "obj_replace k v [] = []"
| "obj_replace k v ((k', v') # xs) = (if k' = k then (k, v) # xs else (k', v') # obj_replace k v xs)"

fun obj_insert :: "int \<Rightarrow> string \<Rightarrow> 'v \<Rightarrow> (string \<times> 'v) list \<Rightarrow> (string \<times> 'v) list" where
  "obj_insert n k v [] = [(k, v)]"
| "obj_insert n k v ((k', v') # xs) =
     (case arrayIndex k' of
        None \<Rightarrow> (k, v) # (k', v') # xs
      | Some n' \<Rightarrow> if n' < n then (k', v') # obj_insert n k v xs else (k, v) # (k', v') # xs)"

definition obj_set :: "string \<Rightarrow> 'v \<Rightarrow> (string \<times> 'v) list \<Rightarrow> (string \<times> 'v) list" where
  "obj_set k v xs =
     (if k \<in> set (map fst xs) then obj_replace k v xs
      else if k = ''__proto__'' then xs
      else (case arrayIndex k of
              None \<Rightarrow> xs @ [(k, v)]
            | Some n \<Rightarrow> obj_insert n k v xs))"

definition obj_delete :: "string \<Rightarrow> (string \<times> 'v) list \<Rightarrow> (string \<times> 'v) list" where
  "obj_delete k xs = filter (\<lambda>kv. fst kv \<noteq> k) xs"

definition obj_keys :: "(string \<times> 'v) list \<Rightarrow> string list" where
  "obj_keys xs = map fst xs"

text \<open>A list is in enumeration order when its keys are distinct, the array indices come
  first and ascend; the three operations keep it so (lemmas \<open>enumerationOrder_obj_set\<close>,
  \<open>enumerationOrder_obj_delete\<close>).\<close>

definition precedes :: "string \<Rightarrow> string \<Rightarrow> bool" where
  "precedes k k' =
     (case arrayIndex k' of
        None \<Rightarrow> True
      | Some n' \<Rightarrow> (case arrayIndex k of None \<Rightarrow> False | Some n \<Rightarrow> n \<le> n'))"

definition enumerationOrder :: "(string \<times> 'v) list \<Rightarrow> bool" where
  "enumerationOrder xs \<longleftrightarrow> distinct (map fst xs) \<and> sorted_wrt precedes (map fst xs)"

text \<open>The members of \<open>Object.prototype\<close>, which every manifest object inherits: eleven
  functions and the accessor \<open>__proto__\<close>, whose value is \<open>Object.prototype\<close> itself.
  All of them are truthy. The code can give such a member a \<open>lastUsed\<close> property
  (\<open>handleUpdateCache\<close>); the state \<open>proto\<close> maps the name of a member to the
  \<open>lastUsed\<close> it has been given. A \<open>lastUsed\<close> given to \<open>Object.prototype\<close> itself
  (under the name \<open>__proto__\<close>) is in turn inherited by every object, as a text.\<close>

type_synonym prototype = "string \<rightharpoonup> timestamp"

definition protoMembers :: "string list" where
  "protoMembers =
     [''constructor'', ''__defineGetter__'', ''__defineSetter__'', ''hasOwnProperty'',
      ''__lookupGetter__'', ''__lookupSetter__'', ''isPrototypeOf'', ''propertyIsEnumerable'',
      ''toString'', ''valueOf'', ''__proto__'', ''toLocaleString'']"

definition inherits :: "prototype \<Rightarrow> string \<Rightarrow> bool" where
  "inherits proto k \<longleftrightarrow> k \<in> set protoMembers \<or> (k = ''lastUsed'' \<and> proto ''__proto__'' \<noteq> None)"

text \<open>The value of \<open>obj[k]\<close>: the own property, else the inherited member, else
  \<open>undefined\<close>.\<close>

datatype 'v property =
    Own 'v
  | InheritedObject "timestamp option"
  | InheritedText timestamp
  | Undefined

definition obj_get :: "prototype \<Rightarrow> (string \<times> 'v) list \<Rightarrow> string \<Rightarrow> 'v property" where
  "obj_get proto xs k =
     (case map_of xs k of
        Some v \<Rightarrow> Own v
      | None \<Rightarrow>
          if k \<in> set protoMembers then InheritedObject (proto k)
          else if k = ''lastUsed''
          then (case proto ''__proto__'' of None \<Rightarrow> Undefined | Some ts \<Rightarrow> InheritedText ts)
          else Undefined)"

subsection \<open>File contents and the JSON text of a manifest\<close>

datatype artifact = ConversationLog | ProjectState | DecisionsMade | NextSteps | CacheProtocol

fun filename :: "artifact \<Rightarrow> string" where
  "filename ConversationLog = ''conversation_log.md''"
| "filename ProjectState = ''current_project_state.md''"
| "filename DecisionsMade = ''decisions_made.md''"
| "filename NextSteps = ''next_steps.md''"
| "filename CacheProtocol = ''cache_protocol.md''"

text \<open>
  The markdown bodies are string templates. \<open>InitialContent a ts topic project dir so\<close> is
  the text \<open>handleInitCache\<close> writes to artifact \<open>a\<close>, a function of the timestamp, the
  topic, the project name, the directory and the session-only flag.
  \<open>UpdateEntry a ts topic body\<close> is the section \<open>handleUpdateCache\<close> appends: a heading
  with the timestamp (and the topic when there is one) followed by \<open>body\<close>.
  \<open>JsonLine m i\<close> is line \<open>i\<close> of the text \<open>JSON.stringify(m, null, 2)\<close>.
\<close>

datatype line =
    JsonLine SessionManifest nat
  | InitialContent artifact timestamp "string option" string path bool
  | UpdateEntry artifact timestamp "string option" string

text \<open>The number of lines of \<open>JSON.stringify(m, null, 2)\<close>: one line per scalar member
  that is defined, two for the braces of a non-empty object, and \<open>{}\<close> on the line of its
  key for an empty one. String values never break a line (a newline is written \<open>\n\<close>).\<close>

definition info_lines :: "SessionInfo \<Rightarrow> nat" where
  "info_lines e =
     2 + 3 + (if autoCleanupAfterDays e = None then 0 else 1) + 1
       + (if archivedAt e = None then 0 else 1)"

text \<open>The text \<open>toISOString()\<close> gives has 24 characters for the years 0000 to 9999 and
  27 for any other year.\<close>

definition isoLength :: "timestamp \<Rightarrow> nat" where
  "isoLength ts = (if - 62167219200000 \<le> ts \<and> ts < 253402300800000 then 24 else 27)"

fun archived_lines :: "ArchivedInfo \<Rightarrow> nat" where
  "archived_lines (ArchivedSession e) = info_lines e"
| "archived_lines (ArchivedObject used archived) = 2 + (if used = None then 0 else 1) + 1"
| "archived_lines (ArchivedText used archived) = 2 + isoLength used + 1"

definition sessions_lines :: "('v \<Rightarrow> nat) \<Rightarrow> (string \<times> 'v) list \<Rightarrow> nat" where
  "sessions_lines f xs = (if xs = [] then 1 else 2 + sum_list (map (\<lambda>kv. f (snd kv)) xs))"

definition json_lines :: "SessionManifest \<Rightarrow> nat" where
  "json_lines m =
     2 + sessions_lines info_lines (activeSessions m)
       + (case archivedSessions m of None \<Rightarrow> 0 | Some xs \<Rightarrow> sessions_lines archived_lines xs)
       + 1"

definition JSON_stringify :: "SessionManifest \<Rightarrow> line list" where
  "JSON_stringify m = map (JsonLine m) [0..<json_lines m]"

text \<open>\<open>JSON.parse\<close> returns the manifest of a complete document and throws (\<open>None\<close>) on
  anything else, in particular on a document cut short: the closing brace of the
  top-level object is its last line. A file holds a manifest only if
  \<open>JSON.stringify\<close> wrote it; JSON text of another shape is outside the model.\<close>

definition JSON_parse :: "line list \<Rightarrow> SessionManifest option" where
  "JSON_parse ls =
     (case ls of
        JsonLine m i # rest \<Rightarrow> if ls = JSON_stringify m then Some m else None
      | _ \<Rightarrow> None)"

subsection \<open>The file system\<close>

datatype node = Dir | File "line list"

record filesystem =
  nodes :: "path \<rightharpoonup> node"
  unwritable :: "path set"

datatype mode = Rewrite | Append

definition existsSync :: "filesystem \<Rightarrow> path \<Rightarrow> bool" where
  "existsSync fs p = (nodes fs p \<noteq> None)"

definition contents :: "filesystem \<Rightarrow> path \<Rightarrow> line list" where
  "contents fs p = (case nodes fs p of Some (File ls) \<Rightarrow> ls | _ \<Rightarrow> [])"

text \<open>Modelled from the spec: \<open>writeFile\<close>, \<open>readFile\<close>, \<open>readFileInternal\<close> and
  \<open>createDirectory\<close> of \<open>tools/filesystem\<close>, which the handlers import (section 6 of the
  specification: \<open>writeFile(path, content, mode)\<close> with mode rewrite or append,
  \<open>readFile(path, isUrl, offset, maxLines)\<close>, \<open>createDirectory(path)\<close> idempotent).
  \<open>None\<close> is a thrown error. A write fails on a path in \<open>unwritable\<close> and on a directory;
  a read fails on a missing path and on a directory, and returns at most \<open>maxLines\<close> lines
  from \<open>offset\<close>.\<close>

definition writeFile :: "filesystem \<Rightarrow> path \<Rightarrow> line list \<Rightarrow> mode \<Rightarrow> filesystem option" where
  "writeFile fs p content md =
     (if p \<in> unwritable fs \<or> nodes fs p = Some Dir then None
      else Some (fs\<lparr>nodes := (nodes fs)(p \<mapsto>
                  File (case md of Rewrite \<Rightarrow> content | Append \<Rightarrow> contents fs p @ content))\<rparr>))"

definition createDirectory :: "filesystem \<Rightarrow> path \<Rightarrow> filesystem option" where
  "createDirectory fs p =
     (case nodes fs p of
        Some Dir \<Rightarrow> Some fs
      | Some (File ls) \<Rightarrow> None
      | None \<Rightarrow> if p \<in> unwritable fs then None else Some (fs\<lparr>nodes := (nodes fs)(p \<mapsto> Dir)\<rparr>))"

definition readFileInternal :: "filesystem \<Rightarrow> path \<Rightarrow> nat \<Rightarrow> nat \<Rightarrow> line list option" where
  "readFileInternal fs p offset maxLines =
     (case nodes fs p of
        Some (File ls) \<Rightarrow> Some (take maxLines (drop offset ls))
      | _ \<Rightarrow> None)"

definition readFile :: "filesystem \<Rightarrow> path \<Rightarrow> nat \<Rightarrow> nat \<Rightarrow> line list option" where
  "readFile fs p offset maxLines = readFileInternal fs p offset maxLines"

text \<open>A sequence of awaited writes: the first failure throws, and the writes before it
  stay on disk.\<close>

fun writeFiles :: "filesystem \<Rightarrow> (path \<times> line list \<times> mode) list \<Rightarrow> filesystem \<times> bool" where
  "writeFiles fs [] = (fs, True)"
| "writeFiles fs ((p, content, md) # ws) =
     (case writeFile fs p content md of
        None \<Rightarrow> (fs, False)
      | Some fs' \<Rightarrow> writeFiles fs' ws)"

subsection \<open>Path resolver, manifest store, permission gate\<close>

definition getCacheDirectory :: "(string \<Rightarrow> string \<Rightarrow> string) \<Rightarrow> string \<Rightarrow> string option \<Rightarrow> string" where
  "getCacheDirectory pjoin baseCacheDir topic =
     (case topic of
        None \<Rightarrow> baseCacheDir
      | Some t \<Rightarrow> if t = [] then baseCacheDir else pjoin baseCacheDir t)"

definition defaultManifest :: SessionManifest where
  "defaultManifest =
     \<lparr> activeSessions = [], archivedSessions = None, manifestVersion = ''2.0.0'' \<rparr>"

definition manifestPath :: "(string \<Rightarrow> string \<Rightarrow> string) \<Rightarrow> string \<Rightarrow> path" where
  "manifestPath pjoin baseCacheDir = pjoin baseCacheDir ''session_manifest.json''"

definition loadSessionManifest :: "(string \<Rightarrow> string \<Rightarrow> string) \<Rightarrow> filesystem \<Rightarrow> string \<Rightarrow> SessionManifest" where
  "loadSessionManifest pjoin fs baseCacheDir =
     (if existsSync fs (manifestPath pjoin baseCacheDir) then
        (case readFileInternal fs (manifestPath pjoin baseCacheDir) 0 1000 of
           None \<Rightarrow> defaultManifest
         | Some manifestContent \<Rightarrow>
             (case JSON_parse manifestContent of
                None \<Rightarrow> defaultManifest
              | Some m \<Rightarrow> m))
      else defaultManifest)"

definition saveSessionManifest :: "(string \<Rightarrow> string \<Rightarrow> string) \<Rightarrow> filesystem \<Rightarrow> string \<Rightarrow> SessionManifest \<Rightarrow> filesystem" where
  "saveSessionManifest pjoin fs baseCacheDir manifest =
     (case writeFile fs (manifestPath pjoin baseCacheDir) (JSON_stringify manifest) Rewrite of
        None \<Rightarrow> fs
      | Some fs' \<Rightarrow> fs')"

text \<open>The block message is a markdown template; the model keeps its first line.\<close>

definition checkCreatePermission :: "bool \<Rightarrow> bool \<Rightarrow> string option" where
  "checkCreatePermission confirmCreate understoodGrowth =
     (if \<not> confirmCreate \<or> \<not> understoodGrowth
      then Some ''**Permission Required to Create Cache Directory**''
      else None)"

subsection \<open>Responses\<close>

text \<open>A handler answers with \<open>{ content: ... }\<close> (\<open>Content\<close>) or with
  \<open>createErrorResponse(...)\<close> (\<open>ErrorResponse\<close>). The texts are templates; the model keeps
  which text it is and the data a claim reads from it.\<close>

datatype message =
    PermissionRequired string
  | InitSuccess
  | UpdateSuccess
  | TopicSelection "string list"
  | LegacyCacheDetected
  | NoCacheFound
  | ContextLoaded "(artifact \<times> line list option) list"
  | AutoCacheConfigured
  | TopicStatus bool bool "SessionInfo property" bool
  | StatusWelcome
  | GlobalStatus "string list"
  | TopicsWelcome
  | TopicsOverview "(string \<times> bool \<times> bool \<times> bool) list" bool
  | ArchiveConfirmationRequired
  | ArchiveSuccess
  | CleanupConfirmationRequired
  | CleanupComplete "string list" "string list"

datatype error =
    CreateDirectoryFailed
  | InitFailed
  | NotInitialized
  | DirectoryNotFound
  | UpdateFailed
  | LegacyDirectoryNotFound
  | TopicDirectoryNotFound
  | TopicNotInManifest
  | CacheDirectoryNotFound

datatype response = Content message | ErrorResponse error

definition orNull :: "string option \<Rightarrow> string option" where
  "orNull t = (if truthy t then t else None)"

subsection \<open>init\<close>

record InitCacheArgs =
  init_cacheDir :: string
  init_projectName :: "string option"
  init_topic :: "string option"
  init_confirmCreate :: bool
  init_understoodGrowth :: bool
  init_sessionOnly :: bool

definition defaultProjectName :: "InitCacheArgs \<Rightarrow> string" where
  "defaultProjectName args =
     (case init_projectName args of
        Some n \<Rightarrow> if n \<noteq> [] then n
                  else (case init_topic args of
                          Some t \<Rightarrow> if t \<noteq> [] then t @ '' Project'' else ''Unknown Project''
                        | None \<Rightarrow> ''Unknown Project'')
      | None \<Rightarrow> (case init_topic args of
                   Some t \<Rightarrow> if t \<noteq> [] then t @ '' Project'' else ''Unknown Project''
                 | None \<Rightarrow> ''Unknown Project''))"

definition newSessionInfo :: "timestamp \<Rightarrow> InitCacheArgs \<Rightarrow> SessionInfo" where
  "newSessionInfo timestamp args =
     \<lparr> createdAt = timestamp, lastUsed = timestamp, projectName = defaultProjectName args,
       autoCleanupAfterDays = (if init_sessionOnly args then Some 7 else None),
       sessionOnly = init_sessionOnly args, archivedAt = None \<rparr>"

text \<open>The \<open>try\<close> block that creates the cache directory and, for a topic, the base
  directory. The flag is false when a creation throws; a directory created before the
  failure stays.\<close>

definition createCacheDirectories ::
  "(string \<Rightarrow> string \<Rightarrow> string) \<Rightarrow> InitCacheArgs \<Rightarrow> filesystem \<Rightarrow> filesystem \<times> bool" where
  "createCacheDirectories pjoin args fs =
     (let baseCacheDir = init_cacheDir args;
          topic = init_topic args;
          actualCacheDir = getCacheDirectory pjoin baseCacheDir topic
      in case createDirectory fs actualCacheDir of
           None \<Rightarrow> (fs, False)
         | Some fs1 \<Rightarrow>
             if truthy topic \<and> \<not> existsSync fs1 baseCacheDir
             then (case createDirectory fs1 baseCacheDir of
                     None \<Rightarrow> (fs1, False)
                   | Some fs2 \<Rightarrow> (fs2, True))
             else (fs1, True))"

text \<open>The manifest update of \<open>handleInitCache\<close>, made only for a topic.\<close>

definition recordTopic ::
  "(string \<Rightarrow> string \<Rightarrow> string) \<Rightarrow> timestamp \<Rightarrow> InitCacheArgs \<Rightarrow> filesystem \<Rightarrow> filesystem" where
  "recordTopic pjoin timestamp args fs =
     (case init_topic args of
        None \<Rightarrow> fs
      | Some t \<Rightarrow>
          if t = [] then fs
          else (let manifest = loadSessionManifest pjoin fs (init_cacheDir args)
                in saveSessionManifest pjoin fs (init_cacheDir args)
                     (manifest\<lparr>activeSessions :=
                        obj_set t (newSessionInfo timestamp args) (activeSessions manifest)\<rparr>)))"

definition initWrites ::
  "(string \<Rightarrow> string \<Rightarrow> string) \<Rightarrow> timestamp \<Rightarrow> InitCacheArgs \<Rightarrow> (path \<times> line list \<times> mode) list" where
  "initWrites pjoin timestamp args =
     (let actualCacheDir = getCacheDirectory pjoin (init_cacheDir args) (init_topic args)
      in map (\<lambda>a. (pjoin actualCacheDir (filename a),
                    [InitialContent a timestamp (init_topic args) (defaultProjectName args)
                       actualCacheDir (init_sessionOnly args)],
                    Rewrite))
           [ConversationLog, ProjectState, DecisionsMade, NextSteps, CacheProtocol])"

text \<open>The part of \<open>handleInitCache\<close> after the permission gate: create the directories,
  record the topic in the manifest, rewrite the five files, update \<open>cacheState\<close>.\<close>

definition initCacheBody ::
  "(string \<Rightarrow> string \<Rightarrow> string) \<Rightarrow> timestamp \<Rightarrow> InitCacheArgs \<Rightarrow> CacheState \<Rightarrow> filesystem
     \<Rightarrow> CacheState \<times> filesystem \<times> response" where
  "initCacheBody pjoin now args cs fs =
     (let (fs2, created) = createCacheDirectories pjoin args fs
      in if \<not> created then (cs, fs2, ErrorResponse CreateDirectoryFailed)
         else
           (let timestamp = now;
                fs3 = recordTopic pjoin timestamp args fs2;
                (fs4, ok) = writeFiles fs3 (initWrites pjoin timestamp args)
            in if \<not> ok then (cs, fs4, ErrorResponse InitFailed)
               else (cs\<lparr> isInitialized := True, cacheDir := init_cacheDir args,
                         currentTopic := orNull (init_topic args),
                         activeTopic := orNull (init_topic args),
                         hasCreatePermission := True, permissionGrantedAt := Some now,
                         lastUpdate := Some now \<rparr>,
                     fs4, Content InitSuccess)))"

definition handleInitCache ::
  "(string \<Rightarrow> string \<Rightarrow> string) \<Rightarrow> timestamp \<Rightarrow> InitCacheArgs \<Rightarrow> CacheState \<Rightarrow> filesystem
     \<Rightarrow> CacheState \<times> filesystem \<times> response" where
  "handleInitCache pjoin now args cs fs =
     (let actualCacheDir = getCacheDirectory pjoin (init_cacheDir args) (init_topic args);
          directoryExists = existsSync fs actualCacheDir
      in if \<not> directoryExists then
           (let permissionError =
                  checkCreatePermission (init_confirmCreate args) (init_understoodGrowth args)
            in if truthy permissionError
               then (cs, fs, Content (PermissionRequired (the permissionError)))
               else initCacheBody pjoin now args cs fs)
         else initCacheBody pjoin now args cs fs)"

subsection \<open>update\<close>

record UpdateCacheArgs =
  conversationSummary :: string
  projectUpdate :: "string option"
  decisionsUpdate :: "string option"
  nextStepsUpdate :: "string option"
  update_topic :: "string option"

definition resolveTarget :: "string option \<Rightarrow> CacheState \<Rightarrow> string option" where
  "resolveTarget topic cs =
     (if \<not> truthy topic \<and> truthy (activeTopic cs) then activeTopic cs else topic)"

definition optionalEntry ::
  "(string \<Rightarrow> string \<Rightarrow> string) \<Rightarrow> path \<Rightarrow> artifact \<Rightarrow> timestamp \<Rightarrow> string option \<Rightarrow> string option
     \<Rightarrow> (path \<times> line list \<times> mode) list" where
  "optionalEntry pjoin dir a timestamp targetTopic upd =
     (case upd of
        None \<Rightarrow> []
      | Some u \<Rightarrow> if u = [] then []
                  else [(pjoin dir (filename a), [UpdateEntry a timestamp targetTopic u], Append)])"

definition updateWrites ::
  "(string \<Rightarrow> string \<Rightarrow> string) \<Rightarrow> path \<Rightarrow> timestamp \<Rightarrow> string option \<Rightarrow> UpdateCacheArgs
     \<Rightarrow> (path \<times> line list \<times> mode) list" where
  "updateWrites pjoin dir timestamp targetTopic args =
     [(pjoin dir (filename ConversationLog),
       [UpdateEntry ConversationLog timestamp targetTopic (conversationSummary args)], Append)]
     @ optionalEntry pjoin dir ProjectState timestamp targetTopic (projectUpdate args)
     @ optionalEntry pjoin dir DecisionsMade timestamp targetTopic (decisionsUpdate args)
     @ optionalEntry pjoin dir NextSteps timestamp targetTopic (nextStepsUpdate args)"

text \<open>The manifest update of \<open>handleUpdateCache\<close>, made in a \<open>try\<close> block when
  \<open>manifest.activeSessions[targetTopic]\<close> is truthy. For an own entry it sets \<open>lastUsed\<close>
  and saves. For an inherited function or object the assignment lands on that member, and
  the manifest is saved as it was loaded. For an inherited text the assignment throws (a
  property cannot be created on a string in strict mode) and nothing is saved. The result
  is the file system and \<open>Object.prototype\<close>.\<close>

definition touchLastUsed ::
  "(string \<Rightarrow> string \<Rightarrow> string) \<Rightarrow> prototype \<Rightarrow> timestamp \<Rightarrow> string \<Rightarrow> string \<Rightarrow> filesystem
     \<Rightarrow> filesystem \<times> prototype" where
  "touchLastUsed pjoin proto timestamp baseCacheDir t fs =
     (let manifest = loadSessionManifest pjoin fs baseCacheDir
      in case obj_get proto (activeSessions manifest) t of
           Own e \<Rightarrow>
             (saveSessionManifest pjoin fs baseCacheDir
                (manifest\<lparr>activeSessions :=
                   obj_set t (e\<lparr>lastUsed := timestamp\<rparr>) (activeSessions manifest)\<rparr>),
              proto)
         | InheritedObject used \<Rightarrow>
             (saveSessionManifest pjoin fs baseCacheDir manifest, proto(t \<mapsto> timestamp))
         | InheritedText used \<Rightarrow> (fs, proto)
         | Undefined \<Rightarrow> (fs, proto))"

text \<open>\<open>handleUpdateCache\<close> gives the cache state, the file system and the response;
  \<open>prototypeAfterUpdate\<close> gives what the same call leaves on \<open>Object.prototype\<close>.\<close>

definition handleUpdateCache ::
  "(string \<Rightarrow> string \<Rightarrow> string) \<Rightarrow> prototype \<Rightarrow> timestamp \<Rightarrow> UpdateCacheArgs \<Rightarrow> CacheState
     \<Rightarrow> filesystem \<Rightarrow> CacheState \<times> filesystem \<times> response" where
  "handleUpdateCache pjoin proto now args cs fs =
     (let targetTopic = resolveTarget (update_topic args) cs;
          targetCacheDir = getCacheDirectory pjoin (cacheDir cs) targetTopic
      in if \<not> isInitialized cs then (cs, fs, ErrorResponse NotInitialized)
         else if \<not> existsSync fs targetCacheDir then (cs, fs, ErrorResponse DirectoryNotFound)
         else
           (let timestamp = now;
                (fs1, ok) = writeFiles fs (updateWrites pjoin targetCacheDir timestamp targetTopic args)
            in if \<not> ok then (cs, fs1, ErrorResponse UpdateFailed)
               else
                 (let fs2 = (case targetTopic of
                               None \<Rightarrow> fs1
                             | Some t \<Rightarrow> if t = [] then fs1
                                         else fst (touchLastUsed pjoin proto timestamp (cacheDir cs) t fs1))
                  in (cs\<lparr> lastUpdate := Some now,
                           activeTopic := (if truthy targetTopic then targetTopic
                                           else activeTopic cs) \<rparr>,
                      fs2, Content UpdateSuccess))))"

definition prototypeAfterUpdate ::
  "(string \<Rightarrow> string \<Rightarrow> string) \<Rightarrow> prototype \<Rightarrow> timestamp \<Rightarrow> UpdateCacheArgs \<Rightarrow> CacheState
     \<Rightarrow> filesystem \<Rightarrow> prototype" where
  "prototypeAfterUpdate pjoin proto now args cs fs =
     (let targetTopic = resolveTarget (update_topic args) cs;
          targetCacheDir = getCacheDirectory pjoin (cacheDir cs) targetTopic
      in if \<not> isInitialized cs then proto
         else if \<not> existsSync fs targetCacheDir then proto
         else
           (let timestamp = now;
                (fs1, ok) = writeFiles fs (updateWrites pjoin targetCacheDir timestamp targetTopic args)
            in if \<not> ok then proto
               else (case targetTopic of
                       None \<Rightarrow> proto
                     | Some t \<Rightarrow> if t = [] then proto
                                 else snd (touchLastUsed pjoin proto timestamp (cacheDir cs) t fs1))))"

subsection \<open>load, configure auto-update, status, list topics\<close>

record LoadCacheArgs =
  load_cacheDir :: string
  load_topic :: "string option"
  load_useLegacy :: bool

definition handleLoadCache ::
  "(string \<Rightarrow> string \<Rightarrow> string) \<Rightarrow> LoadCacheArgs \<Rightarrow> CacheState \<Rightarrow> filesystem
     \<Rightarrow> CacheState \<times> filesystem \<times> response" where
  "handleLoadCache pjoin args cs fs =
     (let baseCacheDir = load_cacheDir args;
          topic = load_topic args;
          useLegacy = load_useLegacy args
      in if \<not> truthy topic \<and> \<not> useLegacy then
           (let manifest = loadSessionManifest pjoin fs baseCacheDir;
                availableTopics = obj_keys (activeSessions manifest)
            in if length availableTopics > 0 then (cs, fs, Content (TopicSelection availableTopics))
               else if existsSync fs baseCacheDir then (cs, fs, Content LegacyCacheDetected)
               else (cs, fs, Content NoCacheFound))
         else if useLegacy \<and> \<not> truthy topic \<and> \<not> existsSync fs baseCacheDir
           then (cs, fs, ErrorResponse LegacyDirectoryNotFound)
         else
           (let targetCacheDir = getCacheDirectory pjoin baseCacheDir topic
            in if \<not> existsSync fs targetCacheDir then (cs, fs, ErrorResponse DirectoryNotFound)
               else (cs\<lparr> cacheDir := baseCacheDir, currentTopic := orNull topic,
                         activeTopic := orNull topic, isInitialized := True \<rparr>,
                     fs,
                     Content (ContextLoaded
                       (map (\<lambda>a. (a, readFile fs (pjoin targetCacheDir (filename a)) 0 2000))
                          [ConversationLog, ProjectState, DecisionsMade, NextSteps])))))"

record AutoUpdateCacheArgs =
  enable :: bool
  auto_updateInterval :: int
  auto_topic :: "string option"

definition handleAutoUpdateCache ::
  "AutoUpdateCacheArgs \<Rightarrow> CacheState \<Rightarrow> filesystem \<Rightarrow> CacheState \<times> filesystem \<times> response" where
  "handleAutoUpdateCache args cs fs =
     (let targetTopic = resolveTarget (auto_topic args) cs;
          cs1 = (case targetTopic of
                   None \<Rightarrow> cs\<lparr>autoUpdateEnabled := enable args\<rparr>
                 | Some t \<Rightarrow>
                     if t = [] then cs\<lparr>autoUpdateEnabled := enable args\<rparr>
                     else (let cs' = cs\<lparr>topicAutoUpdateSettings :=
                                          (topicAutoUpdateSettings cs)(t \<mapsto> enable args)\<rparr>
                           in if activeTopic cs' = Some t
                              then cs'\<lparr>autoUpdateEnabled := enable args\<rparr> else cs'));
          cs2 = (if auto_updateInterval args \<noteq> 0
                 then cs1\<lparr>updateInterval := auto_updateInterval args\<rparr> else cs1)
      in (cs2, fs, Content AutoCacheConfigured))"

definition handleGetCacheStatus ::
  "(string \<Rightarrow> string \<Rightarrow> string) \<Rightarrow> prototype \<Rightarrow> string option \<Rightarrow> CacheState \<Rightarrow> filesystem
     \<Rightarrow> CacheState \<times> filesystem \<times> response" where
  "handleGetCacheStatus pjoin proto topic cs fs =
     (case (if truthy topic then topic else None) of
        Some t \<Rightarrow>
          (let topicCacheDir = getCacheDirectory pjoin (cacheDir cs) (Some t);
               topicExists = existsSync fs topicCacheDir;
               topicAutoUpdate = (topicAutoUpdateSettings cs t = Some True);
               sessionInfo = (if topicExists
                              then obj_get proto (activeSessions (loadSessionManifest pjoin fs (cacheDir cs))) t
                              else Undefined)
           in (cs, fs, Content (TopicStatus topicExists topicAutoUpdate sessionInfo
                                  (activeTopic cs = Some t))))
      | None \<Rightarrow>
          if \<not> existsSync fs (cacheDir cs) then (cs, fs, Content StatusWelcome)
          else (cs, fs, Content (GlobalStatus
                  (obj_keys (activeSessions (loadSessionManifest pjoin fs (cacheDir cs)))))))"

definition handleGetCacheTopics ::
  "(string \<Rightarrow> string \<Rightarrow> string) \<Rightarrow> string \<Rightarrow> CacheState \<Rightarrow> filesystem
     \<Rightarrow> CacheState \<times> filesystem \<times> response" where
  "handleGetCacheTopics pjoin baseCacheDir cs fs =
     (if \<not> existsSync fs baseCacheDir then (cs, fs, Content TopicsWelcome)
      else
        (let manifest = loadSessionManifest pjoin fs baseCacheDir;
             topics = obj_keys (activeSessions manifest);
             hasLegacyCache =
               list_ex (\<lambda>a. existsSync fs (pjoin baseCacheDir (filename a)))
                 [ConversationLog, ProjectState, DecisionsMade, NextSteps]
         in (cs, fs, Content (TopicsOverview
               (map (\<lambda>topic. (topic,
                               existsSync fs (getCacheDirectory pjoin baseCacheDir (Some topic)),
                               topicAutoUpdateSettings cs topic = Some True,
                               activeTopic cs = Some topic)) topics)
               hasLegacyCache))))"

subsection \<open>archive\<close>

record ArchiveCacheArgs =
  archive_topic :: string
  archive_cacheDir :: string
  confirmArchive :: bool

text \<open>The values \<open>manifest.activeSessions[topic]\<close> can have are truthy, \<open>undefined\<close>
  apart; \<open>withArchivedAt\<close> is the object \<open>{...sessionInfo, archivedAt: now}\<close> for each
  of them.\<close>

fun isDefined :: "'v property \<Rightarrow> bool" where
  "isDefined Undefined = False"
| "isDefined p = True"

fun withArchivedAt :: "SessionInfo property \<Rightarrow> timestamp \<Rightarrow> ArchivedInfo" where
  "withArchivedAt (Own sessionInfo) now = ArchivedSession (sessionInfo\<lparr>archivedAt := Some now\<rparr>)"
| "withArchivedAt (InheritedObject used) now = ArchivedObject used now"
| "withArchivedAt (InheritedText used) now = ArchivedText used now"
| "withArchivedAt Undefined now = ArchivedObject None now"

definition handleArchiveCache ::
  "(string \<Rightarrow> string \<Rightarrow> string) \<Rightarrow> prototype \<Rightarrow> timestamp \<Rightarrow> ArchiveCacheArgs \<Rightarrow> CacheState
     \<Rightarrow> filesystem \<Rightarrow> CacheState \<times> filesystem \<times> response" where
  "handleArchiveCache pjoin proto now args cs fs =
     (let topic = archive_topic args;
          baseCacheDir = archive_cacheDir args
      in if \<not> confirmArchive args then (cs, fs, Content ArchiveConfirmationRequired)
         else
           (let topicCacheDir = getCacheDirectory pjoin baseCacheDir (Some topic)
            in if \<not> existsSync fs topicCacheDir then (cs, fs, ErrorResponse TopicDirectoryNotFound)
               else
                 (let manifest = loadSessionManifest pjoin fs baseCacheDir;
                      sessionInfo = obj_get proto (activeSessions manifest) topic
                  in if \<not> isDefined sessionInfo then (cs, fs, ErrorResponse TopicNotInManifest)
                     else
                        (let archived = (case archivedSessions manifest of
                                           None \<Rightarrow> [] | Some xs \<Rightarrow> xs);
                             archivedSessionInfo = withArchivedAt sessionInfo now;
                             manifest' = manifest
                               \<lparr> archivedSessions := Some (obj_set topic archivedSessionInfo archived),
                                 activeSessions := obj_delete topic (activeSessions manifest) \<rparr>;
                             fs' = saveSessionManifest pjoin fs baseCacheDir manifest';
                             cs1 = cs\<lparr>topicAutoUpdateSettings :=
                                      (topicAutoUpdateSettings cs)(topic := None)\<rparr>;
                             cs2 = (if activeTopic cs1 = Some topic
                                    then cs1\<lparr>activeTopic := None, autoUpdateEnabled := False\<rparr>
                                    else cs1)
                         in (cs2, fs', Content ArchiveSuccess)))))"

subsection \<open>cleanup\<close>

record CleanupCacheArgs =
  cleanup_cacheDir :: string
  cleanupAfterDays :: int
  maxSessions :: int
  confirmCleanup :: bool

text \<open>\<open>Object.entries\<close> followed by the stable \<open>sort\<close> with the comparator
  \<open>lastUsed b - lastUsed a\<close>: most recently used first, ties in manifest order.\<close>

definition sortByLastUsed :: "(string \<times> SessionInfo) list \<Rightarrow> (string \<times> SessionInfo) list" where
  "sortByLastUsed entries = sort_key (\<lambda>kv. - lastUsed (snd kv)) entries"

text \<open>\<open>new Date(t)\<close> for a number \<open>t\<close> is an Invalid Date (\<open>None\<close>) when \<open>t\<close> is more
  than 8.64e15 ms away from the epoch. A comparison with an Invalid Date is false.\<close>

definition newDate :: "int \<Rightarrow> timestamp option" where
  "newDate t = (if \<bar>t\<bar> \<le> 8640000000000000 then Some t else None)"

definition earlier :: "timestamp \<Rightarrow> timestamp option \<Rightarrow> bool" where
  "earlier a b = (case b of None \<Rightarrow> False | Some t \<Rightarrow> a < t)"

definition shouldClean :: "timestamp option \<Rightarrow> int \<Rightarrow> string option \<Rightarrow> nat \<Rightarrow> string \<times> SessionInfo \<Rightarrow> bool" where
  "shouldClean cutoffDate maxS active i kv =
     (let tooOld = earlier (lastUsed (snd kv)) cutoffDate;
          excessCount = int i \<ge> maxS;
          isCurrentlyActive = (active = Some (fst kv))
      in (tooOld \<or> excessCount) \<and> \<not> isCurrentlyActive)"

text \<open>The \<open>for\<close> loop over the sorted entries, from index \<open>i\<close>. It carries the manifest,
  the per-topic settings and the two report lists.\<close>

fun cleanupLoop ::
  "(string \<Rightarrow> string \<Rightarrow> string) \<Rightarrow> filesystem \<Rightarrow> string \<Rightarrow> timestamp option \<Rightarrow> int \<Rightarrow> string option
     \<Rightarrow> nat \<Rightarrow> (string \<times> SessionInfo) list
     \<Rightarrow> SessionManifest \<times> (string \<rightharpoonup> bool) \<times> string list \<times> string list
     \<Rightarrow> SessionManifest \<times> (string \<rightharpoonup> bool) \<times> string list \<times> string list" where
  "cleanupLoop pjoin fs baseCacheDir cutoffDate maxS active i [] acc = acc"
| "cleanupLoop pjoin fs baseCacheDir cutoffDate maxS active i (kv # rest)
      (manifest, settings, cleanedTopics, preservedTopics) =
     (let topic = fst kv;
          sessionInfo = snd kv;
          topicDir = getCacheDirectory pjoin baseCacheDir (Some topic)
      in if shouldClean cutoffDate maxS active i kv then
           cleanupLoop pjoin fs baseCacheDir cutoffDate maxS active (Suc i) rest
             (manifest\<lparr>activeSessions := obj_delete topic (activeSessions manifest)\<rparr>,
              settings(topic := None),
              (if existsSync fs topicDir
               then cleanedTopics @ [topic @ '' ('' @ projectName sessionInfo @ '') - Directory: '' @ topicDir]
               else cleanedTopics),
              preservedTopics)
         else
           cleanupLoop pjoin fs baseCacheDir cutoffDate maxS active (Suc i) rest
             (manifest, settings, cleanedTopics,
              preservedTopics @ [topic @ '' ('' @ projectName sessionInfo @ '')'']))"

definition handleCleanupCache ::
  "(string \<Rightarrow> string \<Rightarrow> string) \<Rightarrow> timestamp \<Rightarrow> CleanupCacheArgs \<Rightarrow> CacheState \<Rightarrow> filesystem
     \<Rightarrow> CacheState \<times> filesystem \<times> response" where
  "handleCleanupCache pjoin now args cs fs =
     (let baseCacheDir = cleanup_cacheDir args
      in if \<not> confirmCleanup args then (cs, fs, Content CleanupConfirmationRequired)
         else if \<not> existsSync fs baseCacheDir then (cs, fs, ErrorResponse CacheDirectoryNotFound)
         else
           (let manifest = loadSessionManifest pjoin fs baseCacheDir;
                cutoffDate = newDate (now - cleanupAfterDays args * 24 * 60 * 60 * 1000);
                activeSessions' = sortByLastUsed (activeSessions manifest);
                (manifest', settings', cleanedTopics, preservedTopics) =
                   cleanupLoop pjoin fs baseCacheDir cutoffDate (maxSessions args) (activeTopic cs)
                     0 activeSessions' (manifest, topicAutoUpdateSettings cs, [], []);
                fs' = saveSessionManifest pjoin fs baseCacheDir manifest'
            in (cs\<lparr>topicAutoUpdateSettings := settings'\<rparr>, fs',
                Content (CleanupComplete cleanedTopics preservedTopics))))"

subsection \<open>The tool-call counter\<close>

text \<open>The remainder operator \<open>%\<close> on integers: the sign of the dividend, and \<open>NaN\<close>
  (\<open>None\<close>) for a zero divisor. The decimal text of a counter, as a template literal
  prints it.\<close>

definition js_rem :: "int \<Rightarrow> int \<Rightarrow> int option" where
  "js_rem a b = (if b = 0 then None else Some (sgn a * (\<bar>a\<bar> mod \<bar>b\<bar>)))"

fun show_nat :: "nat \<Rightarrow> string" where
  "show_nat n =
     (if n < 10 then [''0123456789'' ! n]
      else show_nat (n div 10) @ [''0123456789'' ! (n mod 10)])"

declare show_nat.simps [simp del]

definition autoUpdateSummary :: "nat \<Rightarrow> string \<Rightarrow> string" where
  "autoUpdateSummary n nowIso =
     ''Auto-update triggered after '' @ show_nat n @ '' tool calls at '' @ nowIso"

text \<open>\<open>incrementToolCallCounter\<close> returns the new state and the arguments of the update
  it dispatches without awaiting, if it dispatches one. \<open>nowIso\<close> is the text of
  \<open>new Date().toISOString()\<close>.\<close>

definition incrementToolCallCounter :: "string \<Rightarrow> CacheState \<Rightarrow> CacheState \<times> UpdateCacheArgs option" where
  "incrementToolCallCounter nowIso cs =
     (let cs1 = cs\<lparr>toolCallCount := toolCallCount cs + 1\<rparr>;
          (shouldAutoUpdate, targetTopic) =
             (case activeTopic cs1 of
                None \<Rightarrow> (autoUpdateEnabled cs1, None)
              | Some t \<Rightarrow> if t = [] then (autoUpdateEnabled cs1, None)
                          else (topicAutoUpdateSettings cs1 t = Some True, Some t))
      in if shouldAutoUpdate \<and> isInitialized cs1
            \<and> js_rem (int (toolCallCount cs1)) (updateInterval cs1) = Some 0
         then (cs1, Some \<lparr> conversationSummary = autoUpdateSummary (toolCallCount cs1) nowIso,
                           projectUpdate = None, decisionsUpdate = None, nextStepsUpdate = None,
                           update_topic = targetTopic \<rparr>)
         else (cs1, None))"

text \<open>The effective enablement flag in the words of the specification: the per-topic
  flag of the active topic (false when the topic has none) when a topic is active, the
  global flag otherwise.\<close>

definition effectiveAutoUpdate :: "CacheState \<Rightarrow> bool" where
  "effectiveAutoUpdate cs =
     (if truthy (activeTopic cs)
      then (case topicAutoUpdateSettings cs (the (activeTopic cs)) of
              None \<Rightarrow> False | Some b \<Rightarrow> b)
      else autoUpdateEnabled cs)"

subsection \<open>The operations as a state machine\<close>

text \<open>The request handler of \<open>server.ts\<close> routes a tool call to its handler. \<open>Tick\<close> is
  the call of \<open>incrementToolCallCounter\<close> it makes before routing, with the update it
  dispatches run to its end.\<close>

datatype op =
    Init InitCacheArgs
  | Update UpdateCacheArgs
  | Load LoadCacheArgs
  | ConfigureAutoUpdate AutoUpdateCacheArgs
  | Status "string option"
  | ListTopics string
  | Archive ArchiveCacheArgs
  | Cleanup CleanupCacheArgs
  | Tick string

definition tick ::
  "(string \<Rightarrow> string \<Rightarrow> string) \<Rightarrow> prototype \<Rightarrow> timestamp \<Rightarrow> string \<Rightarrow> CacheState \<Rightarrow> filesystem
     \<Rightarrow> CacheState \<times> filesystem \<times> UpdateCacheArgs option" where
  "tick pjoin proto now nowIso cs fs =
     (let (cs1, dispatched) = incrementToolCallCounter nowIso cs
      in case dispatched of
           None \<Rightarrow> (cs1, fs, None)
         | Some autoUpdateArgs \<Rightarrow>
             (let (cs2, fs2, r) = handleUpdateCache pjoin proto now autoUpdateArgs cs1 fs
              in (cs2, fs2, Some autoUpdateArgs)))"

definition prototypeAfterTick ::
  "(string \<Rightarrow> string \<Rightarrow> string) \<Rightarrow> prototype \<Rightarrow> timestamp \<Rightarrow> string \<Rightarrow> CacheState \<Rightarrow> filesystem
     \<Rightarrow> prototype" where
  "prototypeAfterTick pjoin proto now nowIso cs fs =
     (let (cs1, dispatched) = incrementToolCallCounter nowIso cs
      in case dispatched of
           None \<Rightarrow> proto
         | Some autoUpdateArgs \<Rightarrow> prototypeAfterUpdate pjoin proto now autoUpdateArgs cs1 fs)"

text \<open>One operation: \<open>step\<close> gives the cache state and the file system after it,
  \<open>prototypeAfter\<close> the state of \<open>Object.prototype\<close>, which only an update changes.\<close>

fun step ::
  "(string \<Rightarrow> string \<Rightarrow> string) \<Rightarrow> prototype \<Rightarrow> timestamp \<Rightarrow> op \<Rightarrow> CacheState \<times> filesystem
     \<Rightarrow> CacheState \<times> filesystem" where
  "step pjoin proto now (Init a) (cs, fs) = (let (cs', fs', r) = handleInitCache pjoin now a cs fs in (cs', fs'))"
| "step pjoin proto now (Update a) (cs, fs) = (let (cs', fs', r) = handleUpdateCache pjoin proto now a cs fs in (cs', fs'))"
| "step pjoin proto now (Load a) (cs, fs) = (let (cs', fs', r) = handleLoadCache pjoin a cs fs in (cs', fs'))"
| "step pjoin proto now (ConfigureAutoUpdate a) (cs, fs) = (let (cs', fs', r) = handleAutoUpdateCache a cs fs in (cs', fs'))"
| "step pjoin proto now (Status t) (cs, fs) = (let (cs', fs', r) = handleGetCacheStatus pjoin proto t cs fs in (cs', fs'))"
| "step pjoin proto now (ListTopics d) (cs, fs) = (let (cs', fs', r) = handleGetCacheTopics pjoin d cs fs in (cs', fs'))"
| "step pjoin proto now (Archive a) (cs, fs) = (let (cs', fs', r) = handleArchiveCache pjoin proto now a cs fs in (cs', fs'))"
| "step pjoin proto now (Cleanup a) (cs, fs) = (let (cs', fs', r) = handleCleanupCache pjoin now a cs fs in (cs', fs'))"
| "step pjoin proto now (Tick nowIso) (cs, fs) = (let (cs', fs', d) = tick pjoin proto now nowIso cs fs in (cs', fs'))"

fun prototypeAfter ::
  "(string \<Rightarrow> string \<Rightarrow> string) \<Rightarrow> prototype \<Rightarrow> timestamp \<Rightarrow> op \<Rightarrow> CacheState \<times> filesystem
     \<Rightarrow> prototype" where
  "prototypeAfter pjoin proto now (Update a) (cs, fs) = prototypeAfterUpdate pjoin proto now a cs fs"
| "prototypeAfter pjoin proto now (Tick nowIso) (cs, fs) = prototypeAfterTick pjoin proto now nowIso cs fs"
| "prototypeAfter pjoin proto now x (cs, fs) = proto"

fun run ::
  "(string \<Rightarrow> string \<Rightarrow> string) \<Rightarrow> prototype \<Rightarrow> (timestamp \<times> op) list \<Rightarrow> CacheState \<times> filesystem
     \<Rightarrow> CacheState \<times> filesystem" where
  "run pjoin proto [] w = w"
| "run pjoin proto ((now, x) # rest) w =
     run pjoin (prototypeAfter pjoin proto now x w) rest (step pjoin proto now x w)"

text \<open>Consecutive calls of the counter, one per clock reading, each dispatched update
  run before the next call; the result lists the updates dispatched.\<close>

fun ticks ::
  "(string \<Rightarrow> string \<Rightarrow> string) \<Rightarrow> prototype \<Rightarrow> (timestamp \<times> string) list \<Rightarrow> CacheState \<Rightarrow> filesystem
     \<Rightarrow> CacheState \<times> filesystem \<times> UpdateCacheArgs list" where
  "ticks pjoin proto [] cs fs = (cs, fs, [])"
| "ticks pjoin proto ((now, nowIso) # clock) cs fs =
     (let (cs1, fs1, dispatched) = tick pjoin proto now nowIso cs fs;
          (cs2, fs2, later) = ticks pjoin (prototypeAfterTick pjoin proto now nowIso cs fs) clock cs1 fs1
      in (cs2, fs2, (case dispatched of None \<Rightarrow> [] | Some a \<Rightarrow> [a]) @ later))"

text \<open>The manifest invariant: no topic is a key of both session maps.\<close>

definition archivedKeys :: "SessionManifest \<Rightarrow> string list" where
  "archivedKeys m = (case archivedSessions m of None \<Rightarrow> [] | Some xs \<Rightarrow> obj_keys xs)"

definition disjointSessions :: "SessionManifest \<Rightarrow> bool" where
  "disjointSessions m = (list_all (\<lambda>t. t \<notin> set (archivedKeys m)) (obj_keys (activeSessions m)))"



text \<open>The file system with nothing in it, \<open>Object.prototype\<close> as it is when the process
  starts, and the path join used in the examples.\<close>

definition emptyFs :: filesystem where
  "emptyFs = \<lparr> nodes = Map.empty, unwritable = {} \<rparr>"

definition freshPrototype :: prototype where
  "freshPrototype = Map.empty"

definition slashJoin :: "string \<Rightarrow> string \<Rightarrow> string" where
  "slashJoin a b = a @ ''/'' @ b"

subsection \<open>Auxiliary predicates\<close>

text \<open>The fields the trigger reads are the same in two states.\<close>

definition sameTrigger :: "CacheState \<Rightarrow> CacheState \<Rightarrow> bool" where
  "sameTrigger cs cs' \<longleftrightarrow>
     activeTopic cs' = activeTopic cs \<and> topicAutoUpdateSettings cs' = topicAutoUpdateSettings cs
     \<and> autoUpdateEnabled cs' = autoUpdateEnabled cs \<and> isInitialized cs' = isInitialized cs
     \<and> updateInterval cs' = updateInterval cs \<and> toolCallCount cs' = toolCallCount cs"


text \<open>The archived sessions of a manifest, empty when the member is absent.\<close>

definition archivedList :: "SessionManifest \<Rightarrow> (string \<times> ArchivedInfo) list" where
  "archivedList m = (case archivedSessions m of None \<Rightarrow> [] | Some xs \<Rightarrow> xs)"






subsection \<open>Example inputs\<close>

definition demoInit :: InitCacheArgs where
  "demoInit = \<lparr> init_cacheDir = ''base'', init_projectName = None, init_topic = Some ''demo'',
      init_confirmCreate = True, init_understoodGrowth = True, init_sessionOnly = False \<rparr>"

definition demoNoConsent :: InitCacheArgs where
  "demoNoConsent = demoInit\<lparr> init_confirmCreate := False, init_understoodGrowth := False \<rparr>"

definition otherInit :: InitCacheArgs where
  "otherInit = \<lparr> init_cacheDir = ''base'', init_projectName = Some ''Other'',
      init_topic = Some ''other'', init_confirmCreate = True, init_understoodGrowth = True,
      init_sessionOnly = True \<rparr>"

definition demoArchive :: ArchiveCacheArgs where
  "demoArchive = \<lparr> archive_topic = ''demo'', archive_cacheDir = ''base'', confirmArchive = True \<rparr>"

definition demoUpdate :: UpdateCacheArgs where
  "demoUpdate = \<lparr> conversationSummary = ''fixed bug'', projectUpdate = Some ''v2'',
      decisionsUpdate = None, nextStepsUpdate = Some [], update_topic = Some ''demo'' \<rparr>"

definition afterInit :: "CacheState \<times> filesystem" where
  "afterInit = run slashJoin freshPrototype [(1000, Init demoInit)] (initialCacheState, emptyFs)"

definition afterTwoInits :: "CacheState \<times> filesystem" where
  "afterTwoInits =
     run slashJoin freshPrototype [(1000, Init demoInit), (2000, Init otherInit)] (initialCacheState, emptyFs)"

definition tickingState :: CacheState where
  "tickingState = initialCacheState\<lparr> isInitialized := True, activeTopic := Some ''demo'',
      topicAutoUpdateSettings := [''demo'' \<mapsto> True], updateInterval := 3, toolCallCount := 2 \<rparr>"

definition demoClock :: "(timestamp \<times> string) list" where
  "demoClock = [(1000, ''T1''), (2000, ''T2''), (3000, ''T3'')]"

definition ghostUpdate :: UpdateCacheArgs where
  "ghostUpdate = \<lparr> conversationSummary = ''fixed bug'', projectUpdate = None,
      decisionsUpdate = None, nextStepsUpdate = None, update_topic = Some ''ghost'' \<rparr>"

definition bigManifest :: SessionManifest where
  "bigManifest = \<lparr> activeSessions =
       map (\<lambda>n. (replicate (Suc n) CHR ''t'',
                 \<lparr> createdAt = 1000, lastUsed = 1000, projectName = ''P'',
                   autoCleanupAfterDays = None, sessionOnly = False, archivedAt = None \<rparr>))
         [0..<200],
     archivedSessions = None, manifestVersion = ''2.0.0'' \<rparr>"

definition bigFs :: filesystem where
  "bigFs = \<lparr> nodes = [''base'' \<mapsto> Dir,
                       ''base/session_manifest.json'' \<mapsto> File (JSON_stringify bigManifest)],
             unwritable = {} \<rparr>"

definition demoCleanup :: CleanupCacheArgs where
  "demoCleanup = \<lparr> cleanup_cacheDir = ''base'', cleanupAfterDays = 30, maxSessions = 10,
      confirmCleanup = True \<rparr>"


text \<open>The state after \<open>init\<close> of topic demo, with the topic directory then removed by hand.\<close>

definition orphanFs :: filesystem where
  "orphanFs = (snd afterInit)\<lparr>nodes := (nodes (snd afterInit))(''base/demo'' := None)\<rparr>"

text \<open>The same state with an empty directory for a topic the manifest does not list.\<close>

definition ghostFs :: filesystem where
  "ghostFs = (snd afterInit)\<lparr>nodes := (nodes (snd afterInit))(''base/ghost'' \<mapsto> Dir)\<rparr>"

definition ghostArchive :: ArchiveCacheArgs where
  "ghostArchive = \<lparr> archive_topic = ''ghost'', archive_cacheDir = ''base'', confirmArchive = True \<rparr>"

definition demoInfo :: SessionInfo where
  "demoInfo = \<lparr> createdAt = 1000, lastUsed = 1000, projectName = ''demo Project'',
      autoCleanupAfterDays = None, sessionOnly = False, archivedAt = None \<rparr>"




text \<open>File systems in which some path cannot be written, and one with a manifest file that
  is not JSON.\<close>

definition readonlyFs :: filesystem where
  "readonlyFs = \<lparr> nodes = Map.empty, unwritable = {''base/session_manifest.json''} \<rparr>"

definition lockedFs :: filesystem where
  "lockedFs = (snd afterInit)\<lparr>unwritable := {''base/session_manifest.json''}\<rparr>"

definition noDirFs :: filesystem where
  "noDirFs = \<lparr> nodes = Map.empty, unwritable = {''base/demo''} \<rparr>"

definition noStepsFs :: filesystem where
  "noStepsFs = \<lparr> nodes = Map.empty, unwritable = {''base/demo/next_steps.md''} \<rparr>"

definition noLogFs :: filesystem where
  "noLogFs = (snd afterInit)\<lparr>unwritable := {''base/demo/conversation_log.md''}\<rparr>"

definition corruptFs :: filesystem where
  "corruptFs = \<lparr> nodes = [''base'' \<mapsto> Dir, ''base/session_manifest.json'' \<mapsto> File []],
                 unwritable = {} \<rparr>"

text \<open>Topics named like a member of \<open>Object.prototype\<close> or like an array index.\<close>

definition topicInit :: "string \<Rightarrow> InitCacheArgs" where
  "topicInit t = \<lparr> init_cacheDir = ''base'', init_projectName = None, init_topic = Some t,
      init_confirmCreate = True, init_understoodGrowth = True, init_sessionOnly = False \<rparr>"

definition topicArchive :: "string \<Rightarrow> ArchiveCacheArgs" where
  "topicArchive t = \<lparr> archive_topic = t, archive_cacheDir = ''base'', confirmArchive = True \<rparr>"

definition activeUpdate :: UpdateCacheArgs where
  "activeUpdate = \<lparr> conversationSummary = ''more'', projectUpdate = None,
      decisionsUpdate = None, nextStepsUpdate = None, update_topic = None \<rparr>"

definition constructorArchived :: "CacheState \<times> filesystem" where
  "constructorArchived =
     run slashJoin freshPrototype
       [(1000, Init (topicInit ''constructor'')), (2000, Archive (topicArchive ''constructor''))]
       (initialCacheState, emptyFs)"

definition protoInitialised :: "CacheState \<times> filesystem" where
  "protoInitialised =
     run slashJoin freshPrototype [(1000, Init (topicInit ''__proto__''))] (initialCacheState, emptyFs)"

definition indexTopics :: "CacheState \<times> filesystem" where
  "indexTopics =
     run slashJoin freshPrototype
       [(1000, Init (topicInit ''b'')), (2000, Init (topicInit ''10'')), (3000, Init (topicInit ''2''))]
       (initialCacheState, emptyFs)"




section \<open>Verified properties\<close>

subsection \<open>Path resolver\<close>

text \<open>
  Claim C7. \<open>getCacheDirectory\<close> returns the base directory unchanged when no topic is
  given, and \<open>join(base, t)\<close> for every non-empty topic \<open>t\<close>. It is a function of its
  arguments alone: it takes no file system and no cache state, and has no error result.
\<close>

theorem getCacheDirectory_contract:
  "getCacheDirectory pjoin base None = base
   \<and> (t \<noteq> [] \<longrightarrow> getCacheDirectory pjoin base (Some t) = pjoin base t)"
  by (simp add: getCacheDirectory_def)

theorem getCacheDirectory_contract_witness:
  "getCacheDirectory slashJoin ''base'' None = ''base''
   \<and> ''demo'' \<noteq> []
   \<and> getCacheDirectory slashJoin ''base'' (Some ''demo'') = ''base/demo''"
  using getCacheDirectory_contract [of slashJoin "''base''" "''demo''"]
  by (simp add: slashJoin_def)

subsection \<open>Permission gate\<close>

lemma args_flags [simp]:
  "newSessionInfo ts (a\<lparr>init_confirmCreate := c, init_understoodGrowth := u\<rparr>) = newSessionInfo ts a"
  "defaultProjectName (a\<lparr>init_confirmCreate := c, init_understoodGrowth := u\<rparr>) = defaultProjectName a"
  "createCacheDirectories pjoin (a\<lparr>init_confirmCreate := c, init_understoodGrowth := u\<rparr>) fs
     = createCacheDirectories pjoin a fs"
  "recordTopic pjoin ts (a\<lparr>init_confirmCreate := c, init_understoodGrowth := u\<rparr>) fs
     = recordTopic pjoin ts a fs"
  "initWrites pjoin ts (a\<lparr>init_confirmCreate := c, init_understoodGrowth := u\<rparr>)
     = initWrites pjoin ts a"
  by (simp_all add: newSessionInfo_def defaultProjectName_def createCacheDirectories_def
        recordTopic_def initWrites_def split: option.splits)

lemma initCacheBody_flags:
  "initCacheBody pjoin now (a\<lparr>init_confirmCreate := c, init_understoodGrowth := u\<rparr>) cs fs
   = initCacheBody pjoin now a cs fs"
  unfolding initCacheBody_def Let_def
  by (simp cong: option.case_cong prod.case_cong if_cong)

lemma initCacheBody_response:
  "snd (snd (initCacheBody pjoin now a cs fs)) \<in>
     {ErrorResponse CreateDirectoryFailed, ErrorResponse InitFailed, Content InitSuccess}"
  unfolding initCacheBody_def Let_def
  by (simp split: option.splits prod.splits)

text \<open>
  Claim C6. \<open>checkCreatePermission\<close> returns a block message (a non-empty text, which
  \<open>handleInitCache\<close> tests for truthiness) for every input where a flag is false, and
  \<open>null\<close> exactly when both flags are true. \<open>handleInitCache\<close> consults it only when the
  resolved directory does not exist: on an existing directory the call with any flags
  \<open>c\<close>, \<open>u\<close> does what the call with both flags true does and never answers with the
  block; on a missing directory with a flag false it answers with the block and changes
  nothing.
\<close>

theorem permission_gate:
  "(checkCreatePermission c u = None \<longleftrightarrow> c \<and> u)
   \<and> (truthy (checkCreatePermission c u) \<longleftrightarrow> \<not> (c \<and> u))
   \<and> (existsSync fs (getCacheDirectory pjoin (init_cacheDir a) (init_topic a)) \<longrightarrow>
        handleInitCache pjoin now (a\<lparr>init_confirmCreate := c, init_understoodGrowth := u\<rparr>) cs fs
          = handleInitCache pjoin now
              (a\<lparr>init_confirmCreate := True, init_understoodGrowth := True\<rparr>) cs fs
        \<and> (\<forall>msg. snd (snd (handleInitCache pjoin now
                (a\<lparr>init_confirmCreate := c, init_understoodGrowth := u\<rparr>) cs fs))
              \<noteq> Content (PermissionRequired msg)))
   \<and> (\<not> existsSync fs (getCacheDirectory pjoin (init_cacheDir a) (init_topic a))
        \<and> \<not> (c \<and> u) \<longrightarrow>
        (\<exists>msg. msg \<noteq> [] \<and>
           handleInitCache pjoin now (a\<lparr>init_confirmCreate := c, init_understoodGrowth := u\<rparr>) cs fs
           = (cs, fs, Content (PermissionRequired msg))))"
proof -
  let ?dir = "getCacheDirectory pjoin (init_cacheDir a) (init_topic a)"
  have gate: "checkCreatePermission c u = None \<longleftrightarrow> c \<and> u"
    "truthy (checkCreatePermission c u) \<longleftrightarrow> \<not> (c \<and> u)"
    by (auto simp: checkCreatePermission_def truthy_def)
  have body: "\<And>c u. existsSync fs ?dir \<Longrightarrow>
      handleInitCache pjoin now (a\<lparr>init_confirmCreate := c, init_understoodGrowth := u\<rparr>) cs fs
      = initCacheBody pjoin now a cs fs"
    by (simp add: handleInitCache_def initCacheBody_flags Let_def)
  have noblock: "\<And>msg. snd (snd (initCacheBody pjoin now a cs fs)) \<noteq> Content (PermissionRequired msg)"
    using initCacheBody_response [of pjoin now a cs fs] by auto
  have blocked: "\<not> existsSync fs ?dir \<Longrightarrow> \<not> (c \<and> u) \<Longrightarrow>
      handleInitCache pjoin now (a\<lparr>init_confirmCreate := c, init_understoodGrowth := u\<rparr>) cs fs
      = (cs, fs, Content (PermissionRequired ''**Permission Required to Create Cache Directory**''))"
    by (auto simp: handleInitCache_def Let_def checkCreatePermission_def truthy_def)
  show ?thesis
    using gate body noblock blocked by auto
qed

theorem permission_gate_witness:
  "existsSync (snd afterInit) (getCacheDirectory slashJoin (init_cacheDir demoInit) (init_topic demoInit))
   \<and> snd (snd (handleInitCache slashJoin 2000 demoNoConsent (fst afterInit) (snd afterInit)))
       = Content InitSuccess
   \<and> \<not> existsSync emptyFs (getCacheDirectory slashJoin (init_cacheDir demoInit) (init_topic demoInit))
   \<and> (\<exists>msg. msg \<noteq> [] \<and>
         handleInitCache slashJoin 2000 demoNoConsent initialCacheState emptyFs
         = (initialCacheState, emptyFs, Content (PermissionRequired msg)))"
proof -
  have e1: "existsSync (snd afterInit)
              (getCacheDirectory slashJoin (init_cacheDir demoInit) (init_topic demoInit))"
    by code_simp
  have e2: "\<not> existsSync emptyFs
              (getCacheDirectory slashJoin (init_cacheDir demoInit) (init_topic demoInit))"
    by code_simp
  have r: "snd (snd (handleInitCache slashJoin 2000 demoNoConsent (fst afterInit) (snd afterInit)))
           = Content InitSuccess"
    by code_simp
  from permission_gate [of False False emptyFs slashJoin demoInit 2000 initialCacheState]
       permission_gate [of False False "snd afterInit" slashJoin demoInit 2000 "fst afterInit"]
       e1 e2 r
  show ?thesis unfolding demoNoConsent_def by blast
qed

subsection \<open>update: effect on the cache state\<close>

text \<open>
  Claim C9. After a successful \<open>update\<close> whose resolved target topic is \<open>t\<close>, the active
  topic is \<open>t\<close>; in particular an explicit topic replaces the active one. Apart from
  \<open>activeTopic\<close> and \<open>lastUpdate\<close>, the cache state is unchanged.
\<close>

theorem update_frame:
  assumes "handleUpdateCache pjoin proto now args cs fs = (cs', fs', Content UpdateSuccess)"
  shows "(truthy (resolveTarget (update_topic args) cs) \<longrightarrow>
            activeTopic cs' = resolveTarget (update_topic args) cs)
         \<and> (truthy (update_topic args) \<longrightarrow> activeTopic cs' = update_topic args)
         \<and> cs' = cs\<lparr>lastUpdate := Some now, activeTopic := activeTopic cs'\<rparr>"
proof -
  let ?target = "resolveTarget (update_topic args) cs"
  from assms have "cs' = cs\<lparr> lastUpdate := Some now,
      activeTopic := (if truthy ?target then ?target else activeTopic cs) \<rparr>"
    by (simp add: handleUpdateCache_def Let_def split: if_splits prod.splits)
  then show ?thesis by (simp add: resolveTarget_def)
qed

theorem update_frame_witness:
  "activeTopic (fst afterTwoInits) = Some ''other''
   \<and> snd (snd (handleUpdateCache slashJoin freshPrototype 3000 demoUpdate (fst afterTwoInits) (snd afterTwoInits)))
       = Content UpdateSuccess
   \<and> activeTopic (fst (handleUpdateCache slashJoin freshPrototype 3000 demoUpdate (fst afterTwoInits) (snd afterTwoInits)))
       = Some ''demo''"
proof -
  let ?h = "handleUpdateCache slashJoin freshPrototype 3000 demoUpdate (fst afterTwoInits) (snd afterTwoInits)"
  have r: "snd (snd ?h) = Content UpdateSuccess" by code_simp
  then have h: "?h = (fst ?h, fst (snd ?h), Content UpdateSuccess)"
    by (metis prod.collapse)
  have t: "truthy (update_topic demoUpdate)" by code_simp
  have a: "activeTopic (fst afterTwoInits) = Some ''other''" by code_simp
  have u: "update_topic demoUpdate = Some ''demo''" by code_simp
  from update_frame [OF h] t u a r show ?thesis by simp
qed

subsection \<open>The auto-update trigger\<close>

lemma js_rem_zero: "js_rem a b = Some 0 \<longleftrightarrow> b \<noteq> 0 \<and> b dvd a"
  unfolding js_rem_def by (cases "a \<ge> 0") (auto simp: sgn_if)

lemma tick_count: "toolCallCount (fst (incrementToolCallCounter nowIso cs)) = toolCallCount cs + 1"
  by (simp add: incrementToolCallCounter_def Let_def split: option.splits prod.splits if_splits)

lemma tick_frame:
  "fst (incrementToolCallCounter nowIso cs) = cs\<lparr>toolCallCount := toolCallCount cs + 1\<rparr>"
  by (simp add: incrementToolCallCounter_def Let_def split: option.splits prod.splits if_splits)

lemma tick_dispatch_iff:
  "snd (incrementToolCallCounter nowIso cs) \<noteq> None \<longleftrightarrow>
     effectiveAutoUpdate cs \<and> isInitialized cs \<and> updateInterval cs dvd int (toolCallCount cs + 1)"
  by (auto simp: incrementToolCallCounter_def Let_def js_rem_zero effectiveAutoUpdate_def truthy_def
       split: option.splits prod.splits if_splits)

lemma tick_dispatch_args:
  "snd (incrementToolCallCounter nowIso cs) = Some a \<Longrightarrow>
     a = \<lparr> conversationSummary = autoUpdateSummary (toolCallCount cs + 1) nowIso,
           projectUpdate = None, decisionsUpdate = None, nextStepsUpdate = None,
           update_topic = orNull (activeTopic cs) \<rparr>"
  by (auto simp: incrementToolCallCounter_def Let_def orNull_def truthy_def
       split: option.splits prod.splits if_splits)

lemma update_auto_frame:
  assumes "update_topic a = orNull (activeTopic cs)"
  shows "sameTrigger cs (fst (handleUpdateCache pjoin proto now a cs fs))"
  using assms
  by (auto simp: sameTrigger_def handleUpdateCache_def Let_def resolveTarget_def orNull_def
        truthy_def split: if_splits prod.splits option.splits)

lemma tick_state:
  "sameTrigger (cs\<lparr>toolCallCount := toolCallCount cs + 1\<rparr>) (fst (tick pjoin proto now nowIso cs fs))"
proof -
  let ?cs1 = "cs\<lparr>toolCallCount := toolCallCount cs + 1\<rparr>"
  obtain x d where i: "incrementToolCallCounter nowIso cs = (x, d)"
    by (cases "incrementToolCallCounter nowIso cs")
  then have x: "x = ?cs1" using tick_frame [of nowIso cs] by simp
  show ?thesis
  proof (cases d)
    case None
    then show ?thesis using i x by (simp add: tick_def sameTrigger_def)
  next
    case (Some a)
    have "update_topic a = orNull (activeTopic ?cs1)"
      using tick_dispatch_args [of nowIso cs a] i Some by simp
    from update_auto_frame [OF this, of pjoin proto now fs]
    show ?thesis using i x Some
      by (auto simp: tick_def split: prod.splits)
  qed
qed

lemma tick_dispatched:
  "snd (snd (tick pjoin proto now nowIso cs fs)) = snd (incrementToolCallCounter nowIso cs)"
  by (simp add: tick_def split: prod.splits option.splits)

lemma div_Suc_dvd: "0 < n \<Longrightarrow> Suc c div n = c div n + (if n dvd Suc c then 1 else 0)"
  by (simp add: div_Suc dvd_eq_mod_eq_0)

lemma div_add_Suc: "0 < (n::nat) \<Longrightarrow> (c + n) div n = Suc (c div n)"
  using div_add_self2 [of n c] by auto

text \<open>The number of updates dispatched by consecutive calls is the number of multiples
  of the interval the counter passes.\<close>

lemma ticks_count:
  assumes "effectiveAutoUpdate cs" "isInitialized cs" "0 < updateInterval cs"
  shows "length (snd (snd (ticks pjoin proto clock cs fs)))
         = (toolCallCount cs + length clock) div nat (updateInterval cs)
           - toolCallCount cs div nat (updateInterval cs)"
  using assms
proof (induction clock arbitrary: cs fs proto)
  case Nil
  then show ?case by simp
next
  case (Cons c clock)
  obtain now nowIso where c: "c = (now, nowIso)" by (cases c)
  obtain cs1 fs1 d where t: "tick pjoin proto now nowIso cs fs = (cs1, fs1, d)"
    by (cases "tick pjoin proto now nowIso cs fs")
  let ?n = "nat (updateInterval cs)"
  let ?proto = "prototypeAfterTick pjoin proto now nowIso cs fs"
  have npos: "0 < ?n" using Cons.prems by simp
  from tick_state [of cs pjoin proto now nowIso fs] t
  have cs1: "sameTrigger (cs\<lparr>toolCallCount := toolCallCount cs + 1\<rparr>) cs1" by simp
  then have pres: "effectiveAutoUpdate cs1" "isInitialized cs1"
      "updateInterval cs1 = updateInterval cs" "toolCallCount cs1 = Suc (toolCallCount cs)"
    using Cons.prems by (auto simp: effectiveAutoUpdate_def sameTrigger_def)
  have d: "d \<noteq> None \<longleftrightarrow> ?n dvd Suc (toolCallCount cs)"
  proof -
    have "d = snd (incrementToolCallCounter nowIso cs)"
      using tick_dispatched [of pjoin proto now nowIso cs fs] t by simp
    then have "d \<noteq> None \<longleftrightarrow> updateInterval cs dvd int (Suc (toolCallCount cs))"
      using tick_dispatch_iff [of nowIso cs] Cons.prems by simp
    also have "\<dots> \<longleftrightarrow> int ?n dvd int (Suc (toolCallCount cs))" using Cons.prems by simp
    also have "\<dots> \<longleftrightarrow> ?n dvd Suc (toolCallCount cs)" by (rule int_dvd_int_iff)
    finally show ?thesis .
  qed
  have IH: "length (snd (snd (ticks pjoin ?proto clock cs1 fs1)))
         = (Suc (toolCallCount cs) + length clock) div ?n - Suc (toolCallCount cs) div ?n"
    using Cons.IH [OF pres(1) pres(2), of ?proto fs1] pres Cons.prems by simp
  have mono: "Suc (toolCallCount cs) div ?n \<le> (Suc (toolCallCount cs) + length clock) div ?n"
    by (rule div_le_mono) simp
  have "length (snd (snd (ticks pjoin proto (c # clock) cs fs)))
        = (if d = None then 0 else 1) + length (snd (snd (ticks pjoin ?proto clock cs1 fs1)))"
    using c t by (auto split: prod.splits option.splits)
  also have "\<dots> = (if ?n dvd Suc (toolCallCount cs) then 1 else 0)
        + ((Suc (toolCallCount cs) + length clock) div ?n - Suc (toolCallCount cs) div ?n)"
    using d IH by auto
  also have "\<dots> = (toolCallCount cs + length (c # clock)) div ?n - toolCallCount cs div ?n"
    using div_Suc_dvd [OF npos, of "toolCallCount cs"] mono by auto
  finally show ?case .
qed

text \<open>
  Claim C4. Every call of \<open>incrementToolCallCounter\<close> adds one to \<open>toolCallCount\<close>. It
  dispatches an update, which it does not await (the model returns its arguments), if and
  only if the effective enablement flag is true, \<open>isInitialized\<close> is true and the new
  count is divisible by \<open>updateInterval\<close>. The update carries the summary
  ``Auto-update triggered after N tool calls at <timestamp>'' and the active topic if there
  is one. With the flag on and an interval \<open>n > 0\<close>, any \<open>n\<close> consecutive calls dispatch
  exactly one update.
\<close>

theorem tick_contract:
  "toolCallCount (fst (incrementToolCallCounter nowIso cs)) = toolCallCount cs + 1
   \<and> (snd (incrementToolCallCounter nowIso cs) \<noteq> None \<longleftrightarrow>
        effectiveAutoUpdate cs \<and> isInitialized cs \<and> updateInterval cs dvd int (toolCallCount cs + 1))
   \<and> (\<forall>a. snd (incrementToolCallCounter nowIso cs) = Some a \<longrightarrow>
          a = \<lparr> conversationSummary =
                  ''Auto-update triggered after '' @ show_nat (toolCallCount cs + 1)
                    @ '' tool calls at '' @ nowIso,
                projectUpdate = None, decisionsUpdate = None, nextStepsUpdate = None,
                update_topic = (if truthy (activeTopic cs) then activeTopic cs else None) \<rparr>)
   \<and> (effectiveAutoUpdate cs \<and> isInitialized cs \<and> 0 < updateInterval cs
        \<and> int (length clock) = updateInterval cs \<longrightarrow>
        length (snd (snd (ticks pjoin proto clock cs fs))) = 1)"
proof -
  have d: "\<forall>a. snd (incrementToolCallCounter nowIso cs) = Some a \<longrightarrow>
          a = \<lparr> conversationSummary =
                  ''Auto-update triggered after '' @ show_nat (toolCallCount cs + 1)
                    @ '' tool calls at '' @ nowIso,
                projectUpdate = None, decisionsUpdate = None, nextStepsUpdate = None,
                update_topic = (if truthy (activeTopic cs) then activeTopic cs else None) \<rparr>"
    using tick_dispatch_args [of nowIso cs] by (simp add: autoUpdateSummary_def orNull_def)
  have n: "length (snd (snd (ticks pjoin proto clock cs fs))) = 1"
    if h: "effectiveAutoUpdate cs" "isInitialized cs" "0 < updateInterval cs"
          "int (length clock) = updateInterval cs"
  proof -
    have l: "nat (updateInterval cs) = length clock" using h by simp
    have p: "0 < length clock" using h(3) h(4) by linarith
    have e: "(toolCallCount cs + length clock) div length clock
             = Suc (toolCallCount cs div length clock)"
      by (rule div_add_Suc [OF p])
    show ?thesis
      using ticks_count [OF h(1) h(2) h(3), of pjoin proto clock fs] by (simp add: l e)
  qed
  show ?thesis using tick_count [of nowIso cs] tick_dispatch_iff [of nowIso cs] d n by blast
qed

theorem tick_contract_witness:
  "effectiveAutoUpdate tickingState \<and> isInitialized tickingState \<and> 0 < updateInterval tickingState
   \<and> int (length demoClock) = updateInterval tickingState
   \<and> length (snd (snd (ticks slashJoin freshPrototype demoClock tickingState emptyFs))) = 1
   \<and> snd (incrementToolCallCounter ''T1'' tickingState)
       = Some \<lparr> conversationSummary = ''Auto-update triggered after 3 tool calls at T1'',
                projectUpdate = None, decisionsUpdate = None, nextStepsUpdate = None,
                update_topic = Some ''demo'' \<rparr>"
proof -
  have h: "effectiveAutoUpdate tickingState" "isInitialized tickingState"
    "0 < updateInterval tickingState" "int (length demoClock) = updateInterval tickingState"
    by (simp_all add: tickingState_def effectiveAutoUpdate_def truthy_def demoClock_def)
  have s: "snd (incrementToolCallCounter ''T1'' tickingState)
       = Some \<lparr> conversationSummary = ''Auto-update triggered after 3 tool calls at T1'',
                projectUpdate = None, decisionsUpdate = None, nextStepsUpdate = None,
                update_topic = Some ''demo'' \<rparr>"
    by (simp add: tickingState_def incrementToolCallCounter_def js_rem_def autoUpdateSummary_def
          show_nat.simps initialCacheState_def)
  from tick_contract [of "''T1''" tickingState demoClock slashJoin freshPrototype emptyFs] h s
  show ?thesis by simp
qed

subsection \<open>File-system lemmas\<close>

lemma writeFile_SomeD:
  "writeFile fs p c md = Some fs' \<Longrightarrow>
     fs' = fs\<lparr>nodes := (nodes fs)(p \<mapsto> File (case md of Rewrite \<Rightarrow> c | Append \<Rightarrow> contents fs p @ c))\<rparr>
     \<and> p \<notin> unwritable fs \<and> nodes fs p \<noteq> Some Dir"
  by (auto simp: writeFile_def split: if_splits)

lemma contents_writeFile:
  "writeFile fs p c md = Some fs' \<Longrightarrow>
     contents fs' q = (if q = p then (case md of Rewrite \<Rightarrow> c | Append \<Rightarrow> contents fs p @ c)
                       else contents fs q)"
  by (auto dest!: writeFile_SomeD simp: contents_def)

lemma nodes_writeFile_other:
  "writeFile fs p c md = Some fs' \<Longrightarrow> q \<noteq> p \<Longrightarrow> nodes fs' q = nodes fs q"
  by (auto dest!: writeFile_SomeD)

lemma unwritable_writeFile:
  "writeFile fs p c md = Some fs' \<Longrightarrow> unwritable fs' = unwritable fs"
  by (auto dest!: writeFile_SomeD)

lemma writeFiles_append_contents:
  "writeFiles fs ws = (fs', True) \<Longrightarrow> \<forall>w\<in>set ws. snd (snd w) = Append \<Longrightarrow>
     contents fs' q = contents fs q @ concat (map (\<lambda>w. fst (snd w)) (filter (\<lambda>w. fst w = q) ws))"
proof (induction ws arbitrary: fs)
  case Nil
  then show ?case by simp
next
  case (Cons w ws)
  obtain p c md where w: "w = (p, c, md)" by (cases w)
  from Cons.prems w obtain fs1 where f: "writeFile fs p c md = Some fs1" "writeFiles fs1 ws = (fs', True)"
    by (auto split: option.splits)
  have md: "md = Append" using Cons.prems w by simp
  from Cons.IH [OF f(2)] Cons.prems
  have "contents fs' q = contents fs1 q @ concat (map (\<lambda>w. fst (snd w)) (filter (\<lambda>w. fst w = q) ws))"
    by simp
  then show ?case using contents_writeFile [OF f(1), of q] w md by simp
qed

lemma writeFiles_nodes_other:
  "writeFiles fs ws = (fs', b) \<Longrightarrow> q \<notin> fst ` set ws \<Longrightarrow> nodes fs' q = nodes fs q"
proof (induction ws arbitrary: fs)
  case Nil
  then show ?case by simp
next
  case (Cons w ws)
  obtain p c md where w: "w = (p, c, md)" by (cases w)
  show ?case
  proof (cases "writeFile fs p c md")
    case None
    then show ?thesis using Cons.prems w by simp
  next
    case (Some fs1)
    then have "writeFiles fs1 ws = (fs', b)" using Cons.prems w by simp
    from Cons.IH [OF this] Cons.prems have "nodes fs' q = nodes fs1 q" by simp
    then show ?thesis using nodes_writeFile_other [OF Some, of q] Cons.prems w by simp
  qed
qed

lemma writeFiles_unwritable:
  "writeFiles fs ws = (fs', b) \<Longrightarrow> unwritable fs' = unwritable fs"
proof (induction ws arbitrary: fs)
  case Nil
  then show ?case by simp
next
  case (Cons w ws)
  obtain p c md where w: "w = (p, c, md)" by (cases w)
  show ?case
  proof (cases "writeFile fs p c md")
    case None
    then show ?thesis using Cons.prems w by simp
  next
    case (Some fs1)
    then have "writeFiles fs1 ws = (fs', b)" using Cons.prems w by simp
    from Cons.IH [OF this] unwritable_writeFile [OF Some] show ?thesis by simp
  qed
qed

lemma nodes_save_other:
  "q \<noteq> manifestPath pjoin b \<Longrightarrow> nodes (saveSessionManifest pjoin fs b m) q = nodes fs q"
  by (auto simp: saveSessionManifest_def split: option.splits dest: nodes_writeFile_other)

lemma unwritable_save: "unwritable (saveSessionManifest pjoin fs b m) = unwritable fs"
  by (auto simp: saveSessionManifest_def split: option.splits dest: unwritable_writeFile)

lemma nodes_touch_other:
  "q \<noteq> manifestPath pjoin b \<Longrightarrow> nodes (fst (touchLastUsed pjoin proto ts b t fs)) q = nodes fs q"
  by (simp add: touchLastUsed_def Let_def nodes_save_other split: property.splits)

lemma contents_nodes: "nodes fs' q = nodes fs q \<Longrightarrow> contents fs' q = contents fs q"
  by (simp add: contents_def)

subsection \<open>update: errors and appended sections\<close>

lemma updateWrites_append: "\<forall>w\<in>set (updateWrites pjoin dir ts tt args). snd (snd w) = Append"
  by (auto simp: updateWrites_def optionalEntry_def split: option.splits)

lemma updateWrites_paths:
  "fst ` set (updateWrites pjoin dir ts tt args) \<subseteq>
     {pjoin dir (filename ConversationLog), pjoin dir (filename ProjectState),
      pjoin dir (filename DecisionsMade), pjoin dir (filename NextSteps)}"
  by (auto simp: updateWrites_def optionalEntry_def split: option.splits if_splits)

lemma updateWrites_at:
  assumes "distinct [pjoin dir (filename ConversationLog), pjoin dir (filename ProjectState),
      pjoin dir (filename DecisionsMade), pjoin dir (filename NextSteps)]"
  shows
   "concat (map (\<lambda>w. fst (snd w)) (filter (\<lambda>w. fst w = pjoin dir (filename ConversationLog)) (updateWrites pjoin dir ts tt args)))
     = [UpdateEntry ConversationLog ts tt (conversationSummary args)]"
   "concat (map (\<lambda>w. fst (snd w)) (filter (\<lambda>w. fst w = pjoin dir (filename ProjectState)) (updateWrites pjoin dir ts tt args)))
     = (if truthy (projectUpdate args) then [UpdateEntry ProjectState ts tt (the (projectUpdate args))] else [])"
   "concat (map (\<lambda>w. fst (snd w)) (filter (\<lambda>w. fst w = pjoin dir (filename DecisionsMade)) (updateWrites pjoin dir ts tt args)))
     = (if truthy (decisionsUpdate args) then [UpdateEntry DecisionsMade ts tt (the (decisionsUpdate args))] else [])"
   "concat (map (\<lambda>w. fst (snd w)) (filter (\<lambda>w. fst w = pjoin dir (filename NextSteps)) (updateWrites pjoin dir ts tt args)))
     = (if truthy (nextStepsUpdate args) then [UpdateEntry NextSteps ts tt (the (nextStepsUpdate args))] else [])"
  using assms
  by (auto simp: updateWrites_def optionalEntry_def truthy_def split: option.splits)

lemma update_success_fs:
  assumes "handleUpdateCache pjoin proto now args cs fs = (cs', fs', Content UpdateSuccess)"
  shows "\<exists>fs1. writeFiles fs (updateWrites pjoin
             (getCacheDirectory pjoin (cacheDir cs) (resolveTarget (update_topic args) cs))
             now (resolveTarget (update_topic args) cs) args) = (fs1, True)
           \<and> (\<forall>q. q \<noteq> manifestPath pjoin (cacheDir cs) \<longrightarrow> nodes fs' q = nodes fs1 q)"
  using assms
  by (auto simp: handleUpdateCache_def Let_def nodes_touch_other split: if_splits prod.splits option.splits)

text \<open>
  Claim C5. \<open>update\<close> resolves its target as the explicit topic, else the active topic,
  else the base directory. It fails with the not-initialised error when \<open>isInitialized\<close>
  is false and with the directory-missing error when the resolved directory does not
  exist, and writes nothing on either path. On success it appends exactly one timestamped
  section to \<open>conversation_log.md\<close>, and one to each of \<open>current_project_state.md\<close>,
  \<open>decisions_made.md\<close> and \<open>next_steps.md\<close> exactly when the corresponding input is
  non-empty; apart from these four files and the session manifest no path changes.
\<close>

theorem update_contract:
  "(truthy (update_topic args) \<longrightarrow> resolveTarget (update_topic args) cs = update_topic args)
   \<and> (\<not> truthy (update_topic args) \<and> truthy (activeTopic cs) \<longrightarrow>
        resolveTarget (update_topic args) cs = activeTopic cs)
   \<and> (\<not> truthy (update_topic args) \<and> \<not> truthy (activeTopic cs) \<longrightarrow>
        getCacheDirectory pjoin (cacheDir cs) (resolveTarget (update_topic args) cs) = cacheDir cs)
   \<and> (\<not> isInitialized cs \<longrightarrow>
        handleUpdateCache pjoin proto now args cs fs = (cs, fs, ErrorResponse NotInitialized))
   \<and> (isInitialized cs
        \<and> \<not> existsSync fs (getCacheDirectory pjoin (cacheDir cs) (resolveTarget (update_topic args) cs)) \<longrightarrow>
        handleUpdateCache pjoin proto now args cs fs = (cs, fs, ErrorResponse DirectoryNotFound))
   \<and> (handleUpdateCache pjoin proto now args cs fs = (cs', fs', Content UpdateSuccess)
        \<and> target = resolveTarget (update_topic args) cs
        \<and> dir = getCacheDirectory pjoin (cacheDir cs) target
        \<and> distinct [pjoin dir ''conversation_log.md'', pjoin dir ''current_project_state.md'',
                     pjoin dir ''decisions_made.md'', pjoin dir ''next_steps.md'',
                     pjoin (cacheDir cs) ''session_manifest.json''] \<longrightarrow>
        contents fs' (pjoin dir ''conversation_log.md'')
          = contents fs (pjoin dir ''conversation_log.md'')
            @ [UpdateEntry ConversationLog now target (conversationSummary args)]
        \<and> contents fs' (pjoin dir ''current_project_state.md'')
          = contents fs (pjoin dir ''current_project_state.md'')
            @ (if truthy (projectUpdate args)
               then [UpdateEntry ProjectState now target (the (projectUpdate args))] else [])
        \<and> contents fs' (pjoin dir ''decisions_made.md'')
          = contents fs (pjoin dir ''decisions_made.md'')
            @ (if truthy (decisionsUpdate args)
               then [UpdateEntry DecisionsMade now target (the (decisionsUpdate args))] else [])
        \<and> contents fs' (pjoin dir ''next_steps.md'')
          = contents fs (pjoin dir ''next_steps.md'')
            @ (if truthy (nextStepsUpdate args)
               then [UpdateEntry NextSteps now target (the (nextStepsUpdate args))] else [])
        \<and> (\<forall>q. q \<notin> {pjoin dir ''conversation_log.md'', pjoin dir ''current_project_state.md'',
                     pjoin dir ''decisions_made.md'', pjoin dir ''next_steps.md'',
                     pjoin (cacheDir cs) ''session_manifest.json''} \<longrightarrow> nodes fs' q = nodes fs q))"
proof -
  have resolve:
    "truthy (update_topic args) \<longrightarrow> resolveTarget (update_topic args) cs = update_topic args"
    "\<not> truthy (update_topic args) \<and> truthy (activeTopic cs) \<longrightarrow>
        resolveTarget (update_topic args) cs = activeTopic cs"
    "\<not> truthy (update_topic args) \<and> \<not> truthy (activeTopic cs) \<longrightarrow>
        getCacheDirectory pjoin (cacheDir cs) (resolveTarget (update_topic args) cs) = cacheDir cs"
    by (auto simp: resolveTarget_def getCacheDirectory_def truthy_def split: option.splits)
  have errors:
    "\<not> isInitialized cs \<longrightarrow>
        handleUpdateCache pjoin proto now args cs fs = (cs, fs, ErrorResponse NotInitialized)"
    "isInitialized cs
        \<and> \<not> existsSync fs (getCacheDirectory pjoin (cacheDir cs) (resolveTarget (update_topic args) cs)) \<longrightarrow>
        handleUpdateCache pjoin proto now args cs fs = (cs, fs, ErrorResponse DirectoryNotFound)"
    by (simp_all add: handleUpdateCache_def Let_def)
  have success: "contents fs' (pjoin dir ''conversation_log.md'')
          = contents fs (pjoin dir ''conversation_log.md'')
            @ [UpdateEntry ConversationLog now target (conversationSummary args)]
        \<and> contents fs' (pjoin dir ''current_project_state.md'')
          = contents fs (pjoin dir ''current_project_state.md'')
            @ (if truthy (projectUpdate args)
               then [UpdateEntry ProjectState now target (the (projectUpdate args))] else [])
        \<and> contents fs' (pjoin dir ''decisions_made.md'')
          = contents fs (pjoin dir ''decisions_made.md'')
            @ (if truthy (decisionsUpdate args)
               then [UpdateEntry DecisionsMade now target (the (decisionsUpdate args))] else [])
        \<and> contents fs' (pjoin dir ''next_steps.md'')
          = contents fs (pjoin dir ''next_steps.md'')
            @ (if truthy (nextStepsUpdate args)
               then [UpdateEntry NextSteps now target (the (nextStepsUpdate args))] else [])
        \<and> (\<forall>q. q \<notin> {pjoin dir ''conversation_log.md'', pjoin dir ''current_project_state.md'',
                     pjoin dir ''decisions_made.md'', pjoin dir ''next_steps.md'',
                     pjoin (cacheDir cs) ''session_manifest.json''} \<longrightarrow> nodes fs' q = nodes fs q)"
    if h: "handleUpdateCache pjoin proto now args cs fs = (cs', fs', Content UpdateSuccess)"
      and t: "target = resolveTarget (update_topic args) cs"
      and d: "dir = getCacheDirectory pjoin (cacheDir cs) target"
      and dist: "distinct [pjoin dir ''conversation_log.md'', pjoin dir ''current_project_state.md'',
                     pjoin dir ''decisions_made.md'', pjoin dir ''next_steps.md'',
                     pjoin (cacheDir cs) ''session_manifest.json'']"
  proof -
    let ?ws = "updateWrites pjoin dir now target args"
    from update_success_fs [OF h] t d obtain fs1 where
      w: "writeFiles fs ?ws = (fs1, True)"
      and rest: "\<And>q. q \<noteq> manifestPath pjoin (cacheDir cs) \<Longrightarrow> nodes fs' q = nodes fs1 q"
      by auto
    have dist4: "distinct [pjoin dir (filename ConversationLog), pjoin dir (filename ProjectState),
      pjoin dir (filename DecisionsMade), pjoin dir (filename NextSteps)]"
      using dist by simp
    have app: "\<And>q. contents fs1 q
        = contents fs q @ concat (map (\<lambda>w. fst (snd w)) (filter (\<lambda>w. fst w = q) ?ws))"
      by (rule writeFiles_append_contents [OF w updateWrites_append])
    have c: "\<And>q. q \<noteq> manifestPath pjoin (cacheDir cs) \<Longrightarrow> contents fs' q = contents fs1 q"
      by (rule contents_nodes) (rule rest)
    have m: "pjoin dir ''conversation_log.md'' \<noteq> manifestPath pjoin (cacheDir cs)"
      "pjoin dir ''current_project_state.md'' \<noteq> manifestPath pjoin (cacheDir cs)"
      "pjoin dir ''decisions_made.md'' \<noteq> manifestPath pjoin (cacheDir cs)"
      "pjoin dir ''next_steps.md'' \<noteq> manifestPath pjoin (cacheDir cs)"
      using dist by (auto simp: manifestPath_def)
    have other: "nodes fs' q = nodes fs q"
      if "q \<notin> {pjoin dir ''conversation_log.md'', pjoin dir ''current_project_state.md'',
                     pjoin dir ''decisions_made.md'', pjoin dir ''next_steps.md'',
                     pjoin (cacheDir cs) ''session_manifest.json''}" for q
    proof -
      have "q \<notin> fst ` set ?ws" using that updateWrites_paths [of pjoin dir now target args] by auto
      from writeFiles_nodes_other [OF w this] rest [of q] that show ?thesis
        by (simp add: manifestPath_def)
    qed
    show ?thesis
      using app c m updateWrites_at [where pjoin=pjoin and dir=dir and ts=now and tt=target and args=args, OF dist4] other
      by simp
  qed
  show ?thesis using resolve errors success by blast
qed

theorem update_contract_witness:
  "truthy (update_topic demoUpdate)
   \<and> resolveTarget (update_topic demoUpdate) (fst afterTwoInits) = Some ''demo''
   \<and> \<not> isInitialized initialCacheState
   \<and> handleUpdateCache slashJoin freshPrototype 3000 demoUpdate initialCacheState emptyFs
       = (initialCacheState, emptyFs, ErrorResponse NotInitialized)
   \<and> isInitialized (fst afterInit)
   \<and> \<not> existsSync (snd afterInit) ''base/ghost''
   \<and> handleUpdateCache slashJoin freshPrototype 3000 ghostUpdate (fst afterInit) (snd afterInit)
       = (fst afterInit, snd afterInit, ErrorResponse DirectoryNotFound)
   \<and> snd (snd (handleUpdateCache slashJoin freshPrototype 3000 demoUpdate (fst afterTwoInits) (snd afterTwoInits)))
       = Content UpdateSuccess
   \<and> contents (fst (snd (handleUpdateCache slashJoin freshPrototype 3000 demoUpdate (fst afterTwoInits) (snd afterTwoInits))))
         ''base/demo/conversation_log.md''
       = [InitialContent ConversationLog 1000 (Some ''demo'') ''demo Project'' ''base/demo'' False,
          UpdateEntry ConversationLog 3000 (Some ''demo'') ''fixed bug'']
   \<and> contents (fst (snd (handleUpdateCache slashJoin freshPrototype 3000 demoUpdate (fst afterTwoInits) (snd afterTwoInits))))
         ''base/demo/current_project_state.md''
       = [InitialContent ProjectState 1000 (Some ''demo'') ''demo Project'' ''base/demo'' False,
          UpdateEntry ProjectState 3000 (Some ''demo'') ''v2'']
   \<and> contents (fst (snd (handleUpdateCache slashJoin freshPrototype 3000 demoUpdate (fst afterTwoInits) (snd afterTwoInits))))
         ''base/demo/next_steps.md''
       = [InitialContent NextSteps 1000 (Some ''demo'') ''demo Project'' ''base/demo'' False]"
proof -
  let ?h = "handleUpdateCache slashJoin freshPrototype 3000 demoUpdate (fst afterTwoInits) (snd afterTwoInits)"
  have r: "snd (snd ?h) = Content UpdateSuccess" by code_simp
  then have h: "?h = (fst ?h, fst (snd ?h), Content UpdateSuccess)"
    by (metis prod.collapse)
  have t: "truthy (update_topic demoUpdate)" by code_simp
  have tgt: "resolveTarget (update_topic demoUpdate) (fst afterTwoInits) = Some ''demo''" by code_simp
  have dir: "getCacheDirectory slashJoin (cacheDir (fst afterTwoInits)) (Some ''demo'') = ''base/demo''"
    by code_simp
  have dist: "distinct [slashJoin ''base/demo'' ''conversation_log.md'',
       slashJoin ''base/demo'' ''current_project_state.md'',
       slashJoin ''base/demo'' ''decisions_made.md'', slashJoin ''base/demo'' ''next_steps.md'',
       slashJoin (cacheDir (fst afterTwoInits)) ''session_manifest.json'']"
    by code_simp
  have before:
    "contents (snd afterTwoInits) (slashJoin ''base/demo'' ''conversation_log.md'')
       = [InitialContent ConversationLog 1000 (Some ''demo'') ''demo Project'' ''base/demo'' False]"
    "contents (snd afterTwoInits) (slashJoin ''base/demo'' ''current_project_state.md'')
       = [InitialContent ProjectState 1000 (Some ''demo'') ''demo Project'' ''base/demo'' False]"
    "contents (snd afterTwoInits) (slashJoin ''base/demo'' ''next_steps.md'')
       = [InitialContent NextSteps 1000 (Some ''demo'') ''demo Project'' ''base/demo'' False]"
    by code_simp+
  have args: "conversationSummary demoUpdate = ''fixed bug''" "projectUpdate demoUpdate = Some ''v2''"
    "nextStepsUpdate demoUpdate = Some []"
    by (simp_all add: demoUpdate_def)
  have n: "\<not> isInitialized initialCacheState" by (simp add: initialCacheState_def)
  have i: "isInitialized (fst afterInit)" by code_simp
  have g: "\<not> existsSync (snd afterInit) ''base/ghost''" by code_simp
  have gd: "getCacheDirectory slashJoin (cacheDir (fst afterInit))
              (resolveTarget (update_topic ghostUpdate) (fst afterInit)) = ''base/ghost''"
    by code_simp
  from update_contract [of demoUpdate "fst afterTwoInits" slashJoin freshPrototype 3000 "snd afterTwoInits"
         "fst ?h" "fst (snd ?h)" "Some ''demo''" "''base/demo''"]
       h t tgt dir dist before args r
  have success: "resolveTarget (update_topic demoUpdate) (fst afterTwoInits) = Some ''demo''
     \<and> contents (fst (snd ?h)) ''base/demo/conversation_log.md''
       = [InitialContent ConversationLog 1000 (Some ''demo'') ''demo Project'' ''base/demo'' False,
          UpdateEntry ConversationLog 3000 (Some ''demo'') ''fixed bug'']
     \<and> contents (fst (snd ?h)) ''base/demo/current_project_state.md''
       = [InitialContent ProjectState 1000 (Some ''demo'') ''demo Project'' ''base/demo'' False,
          UpdateEntry ProjectState 3000 (Some ''demo'') ''v2'']
     \<and> contents (fst (snd ?h)) ''base/demo/next_steps.md''
       = [InitialContent NextSteps 1000 (Some ''demo'') ''demo Project'' ''base/demo'' False]"
    by (simp add: slashJoin_def truthy_def)
  from update_contract [of demoUpdate initialCacheState slashJoin freshPrototype 3000 emptyFs] n
  have e1: "handleUpdateCache slashJoin freshPrototype 3000 demoUpdate initialCacheState emptyFs
       = (initialCacheState, emptyFs, ErrorResponse NotInitialized)" by blast
  from update_contract [of ghostUpdate "fst afterInit" slashJoin freshPrototype 3000 "snd afterInit"] i g gd
  have e2: "handleUpdateCache slashJoin freshPrototype 3000 ghostUpdate (fst afterInit) (snd afterInit)
       = (fst afterInit, snd afterInit, ErrorResponse DirectoryNotFound)" by simp
  show ?thesis using success e1 e2 t n i g r by blast
qed

subsection \<open>Objects\<close>

lemma obj_set_Nil: "obj_set k v [] = (if k = ''__proto__'' then [] else [(k, v)])"
  by (simp add: obj_set_def split: option.splits)

lemma in_keys: "(k, v) \<in> set xs \<Longrightarrow> k \<in> fst ` set xs"
  by force

lemma map_of_obj_replace:
  "map_of (obj_replace k v xs) = (if k \<in> fst ` set xs then (map_of xs)(k \<mapsto> v) else map_of xs)"
  by (induction xs) (auto simp: fun_eq_iff dest: in_keys)

lemma keys_obj_replace: "map fst (obj_replace k v xs) = map fst xs"
  by (induction xs) auto

lemma map_of_obj_insert:
  "k \<notin> fst ` set xs \<Longrightarrow> map_of (obj_insert n k v xs) = (map_of xs)(k \<mapsto> v)"
  by (induction xs) (auto simp: fun_eq_iff split: option.splits)

lemma set_obj_insert: "set (obj_insert n k v xs) = insert (k, v) (set xs)"
  by (induction xs) (auto split: option.splits if_splits)


lemma map_of_append_new:
  "k \<notin> fst ` set xs \<Longrightarrow> map_of (xs @ [(k, v)]) = (map_of xs)(k \<mapsto> v)"
  by (induction xs) (auto simp: fun_eq_iff)

lemma map_of_obj_set:
  "k \<noteq> ''__proto__'' \<or> k \<in> fst ` set xs \<Longrightarrow> map_of (obj_set k v xs) = (map_of xs)(k \<mapsto> v)"
  unfolding obj_set_def
  by (cases "k \<in> fst ` set xs")
     (simp_all add: map_of_obj_replace map_of_obj_insert map_of_append_new del: map_of_append
        split: option.splits)

lemma map_of_obj_delete: "map_of (obj_delete k xs) = (map_of xs)(k := None)"
  by (induction xs) (auto simp: obj_delete_def fun_eq_iff)




lemma distinct_obj_insert:
  "k \<notin> fst ` set xs \<Longrightarrow> distinct (map fst xs) \<Longrightarrow> distinct (map fst (obj_insert n k v xs))"
  by (induction xs) (auto simp: set_obj_insert split: option.splits)

lemma sorted_obj_insert:
  "arrayIndex k = Some n \<Longrightarrow> sorted_wrt precedes (map fst xs) \<Longrightarrow>
     sorted_wrt precedes (map fst (obj_insert n k v xs))"
proof (induction xs)
  case Nil
  then show ?case by simp
next
  case (Cons x xs)
  obtain k' v' where x: "x = (k', v')" by (cases x)
  have later: "\<forall>y\<in>fst ` set xs. precedes k' y" and rest: "sorted_wrt precedes (map fst xs)"
    using Cons.prems(2) x by auto
  show ?case
  proof (cases "arrayIndex k'")
    case None
    have "\<forall>y\<in>fst ` set xs. arrayIndex y = None"
      using later None by (auto simp: precedes_def split: option.splits)
    then have "\<forall>y\<in>fst ` set xs. precedes k y" by (auto simp: precedes_def)
    moreover have "precedes k k'" using None by (simp add: precedes_def)
    ultimately show ?thesis using None x Cons.prems(2) by auto
  next
    case (Some n')
    show ?thesis
    proof (cases "n' < n")
      case True
      have "precedes k' k" using Some Cons.prems(1) True by (simp add: precedes_def)
      then show ?thesis
        using Some True x later Cons.IH [OF Cons.prems(1) rest] by (auto simp: set_obj_insert)
    next
      case False
      have kk: "precedes k k'" using Some Cons.prems(1) False by (simp add: precedes_def)
      have "\<forall>y\<in>fst ` set xs. precedes k y"
        using later Some Cons.prems(1) False by (auto simp: precedes_def split: option.splits)
      then show ?thesis using Some False x kk Cons.prems(2) by auto
    qed
  qed
qed

lemma sorted_append_name:
  "arrayIndex k = None \<Longrightarrow> sorted_wrt precedes ks \<Longrightarrow> sorted_wrt precedes (ks @ [k])"
  by (simp add: sorted_wrt_append precedes_def)

lemma enumerationOrder_obj_set:
  assumes "enumerationOrder xs" shows "enumerationOrder (obj_set k v xs)"
proof (cases "k \<in> fst ` set xs")
  case True
  then show ?thesis using assms by (simp add: obj_set_def enumerationOrder_def keys_obj_replace)
next
  case False
  show ?thesis
  proof (cases "arrayIndex k")
    case None
    then show ?thesis using False assms
      by (auto simp: obj_set_def enumerationOrder_def sorted_append_name)
  next
    case (Some n)
    then show ?thesis using False assms
      by (auto simp: obj_set_def enumerationOrder_def sorted_obj_insert distinct_obj_insert)
  qed
qed

lemma keys_obj_delete_list: "map fst (obj_delete k xs) = filter (\<lambda>x. x \<noteq> k) (map fst xs)"
  by (simp add: obj_delete_def filter_map comp_def)

lemma enumerationOrder_obj_delete:
  "enumerationOrder xs \<Longrightarrow> enumerationOrder (obj_delete k xs)"
  by (simp add: enumerationOrder_def keys_obj_delete_list sorted_wrt_filter)

lemma enumerationOrder_filter:
  "enumerationOrder xs \<Longrightarrow> enumerationOrder (filter P xs)"
  unfolding enumerationOrder_def
  by (induction xs) auto

lemma obj_get_own: "map_of xs k = Some v \<Longrightarrow> obj_get proto xs k = Own v"
  by (simp add: obj_get_def)

lemma obj_get_undefined:
  "map_of xs k = None \<Longrightarrow> \<not> inherits proto k \<Longrightarrow> obj_get proto xs k = Undefined"
  by (auto simp: obj_get_def inherits_def split: option.splits)


lemma obj_get_not_own: "map_of xs k = None \<Longrightarrow> obj_get proto xs k \<noteq> Own v"
  by (auto simp: obj_get_def split: option.splits if_splits)

subsection \<open>The manifest store\<close>

lemma json_lines_pos: "3 \<le> json_lines m"
  by (simp add: json_lines_def)

lemma length_stringify [simp]: "length (JSON_stringify m) = json_lines m"
  by (simp add: JSON_stringify_def)

lemma stringify_Cons: "JSON_stringify m = JsonLine m 0 # map (JsonLine m) [1..<json_lines m]"
proof -
  have "[0..<json_lines m] = 0 # [1..<json_lines m]"
    using json_lines_pos [of m] by (simp add: upt_conv_Cons)
  then show ?thesis by (simp add: JSON_stringify_def)
qed

lemma JSON_parse_stringify [simp]: "JSON_parse (JSON_stringify m) = Some m"
  by (subst JSON_parse_def) (simp add: stringify_Cons [symmetric] stringify_Cons [of m] split: list.splits line.splits)

lemma JSON_parse_SomeD: "JSON_parse ls = Some m \<Longrightarrow> ls = JSON_stringify m"
  by (auto simp: JSON_parse_def split: list.splits line.splits if_splits)

lemma take_stringify_short: "json_lines m \<le> n \<Longrightarrow> take n (JSON_stringify m) = JSON_stringify m"
  by simp

lemma JSON_parse_truncated:
  assumes "n < json_lines m" shows "JSON_parse (take n (JSON_stringify m)) = None"
proof (cases "JSON_parse (take n (JSON_stringify m))")
  case None
  then show ?thesis .
next
  case (Some m')
  then have e: "take n (JSON_stringify m) = JSON_stringify m'" by (rule JSON_parse_SomeD)
  have "JSON_stringify m' \<noteq> []" by (simp add: stringify_Cons [of m'])
  with e have "n \<noteq> 0" by (cases n) auto
  then have "hd (take n (JSON_stringify m)) = JsonLine m 0"
    by (cases n) (simp_all add: stringify_Cons [of m])
  moreover have "hd (JSON_stringify m') = JsonLine m' 0" by (simp add: stringify_Cons [of m'])
  ultimately have "m' = m" using e by simp
  then have "length (take n (JSON_stringify m)) = json_lines m" using e by simp
  then show ?thesis using assms by simp
qed

lemma JSON_parse_take_stringify:
  "JSON_parse (take n (JSON_stringify m)) = (if json_lines m \<le> n then Some m else None)"
  by (simp add: JSON_parse_truncated)


lemma load_file:
  "nodes fs (manifestPath pjoin b) = Some (File ls) \<Longrightarrow>
     loadSessionManifest pjoin fs b
       = (case JSON_parse (take 1000 ls) of None \<Rightarrow> defaultManifest | Some m \<Rightarrow> m)"
  by (simp add: loadSessionManifest_def existsSync_def readFileInternal_def)

lemma load_nofile:
  "nodes fs (manifestPath pjoin b) = None \<or> nodes fs (manifestPath pjoin b) = Some Dir \<Longrightarrow>
     loadSessionManifest pjoin fs b = defaultManifest"
  by (auto simp: loadSessionManifest_def existsSync_def readFileInternal_def)

lemma load_cong:
  "nodes fs' (manifestPath pjoin b) = nodes fs (manifestPath pjoin b) \<Longrightarrow>
     loadSessionManifest pjoin fs' b = loadSessionManifest pjoin fs b"
  by (simp add: loadSessionManifest_def existsSync_def readFileInternal_def)

lemma save_writable:
  "manifestPath pjoin b \<notin> unwritable fs \<Longrightarrow> nodes fs (manifestPath pjoin b) \<noteq> Some Dir \<Longrightarrow>
     saveSessionManifest pjoin fs b m
       = fs\<lparr>nodes := (nodes fs)(manifestPath pjoin b \<mapsto> File (JSON_stringify m))\<rparr>"
  by (simp add: saveSessionManifest_def writeFile_def)

lemma save_unwritable:
  "manifestPath pjoin b \<in> unwritable fs \<or> nodes fs (manifestPath pjoin b) = Some Dir \<Longrightarrow>
     saveSessionManifest pjoin fs b m = fs"
  by (auto simp: saveSessionManifest_def writeFile_def)

lemma cleanup_empty_manifest:
  assumes "loadSessionManifest pjoin fs (cleanup_cacheDir c) = defaultManifest"
    "confirmCleanup c" "existsSync fs (cleanup_cacheDir c)"
  shows "handleCleanupCache pjoin now c cs fs
     = (cs\<lparr>topicAutoUpdateSettings := topicAutoUpdateSettings cs\<rparr>,
        saveSessionManifest pjoin fs (cleanup_cacheDir c) defaultManifest,
        Content (CleanupComplete [] []))"
  using assms
  by (simp add: handleCleanupCache_def Let_def sortByLastUsed_def defaultManifest_def)

text \<open>
  Claim C10. \<open>loadSessionManifest\<close> reads at most the first 1000 lines of
  \<open>session_manifest.json\<close>. For an existing manifest file whose first 1000 lines do not
  parse, in particular a well-formed manifest whose serialization has more than 1000
  lines, it returns the fresh empty manifest (no active sessions, \<open>archivedSessions\<close>
  absent, version 2.0.0) without an error, and the next save (the one \<open>init\<close> makes for
  a topic, or the one \<open>cleanup\<close> makes) overwrites the file with a manifest that holds
  none of the topics recorded before.
\<close>

theorem load_truncates:
  "(\<forall>ls. readFileInternal fs (manifestPath pjoin base) 0 1000 = Some ls \<longrightarrow> length ls \<le> 1000)
   \<and> (nodes fs (manifestPath pjoin base) = Some (File ls) \<and> JSON_parse (take 1000 ls) = None \<longrightarrow>
        loadSessionManifest pjoin fs base = defaultManifest)
   \<and> (nodes fs (manifestPath pjoin base) = Some (File (JSON_stringify m)) \<and> 1000 < json_lines m \<longrightarrow>
        loadSessionManifest pjoin fs base
          = \<lparr> activeSessions = [], archivedSessions = None, manifestVersion = ''2.0.0'' \<rparr>
        \<and> (manifestPath pjoin base \<notin> unwritable fs \<and> init_cacheDir a = base
             \<and> init_topic a = Some t \<and> t \<noteq> [] \<longrightarrow>
             nodes (recordTopic pjoin now a fs) (manifestPath pjoin base)
               = Some (File (JSON_stringify
                   \<lparr> activeSessions = (if t = ''__proto__'' then [] else [(t, newSessionInfo now a)]),
                     archivedSessions = None, manifestVersion = ''2.0.0'' \<rparr>)))
        \<and> (manifestPath pjoin base \<notin> unwritable fs \<and> cleanup_cacheDir c = base
             \<and> confirmCleanup c \<and> existsSync fs base \<longrightarrow>
             nodes (fst (snd (handleCleanupCache pjoin now c cs fs))) (manifestPath pjoin base)
               = Some (File (JSON_stringify
                   \<lparr> activeSessions = [], archivedSessions = None, manifestVersion = ''2.0.0'' \<rparr>))))"
proof -
  have rd: "\<forall>ls. readFileInternal fs (manifestPath pjoin base) 0 1000 = Some ls \<longrightarrow> length ls \<le> 1000"
    by (auto simp: readFileInternal_def split: option.splits node.splits)
  have corrupt: "loadSessionManifest pjoin fs base = defaultManifest"
    if "nodes fs (manifestPath pjoin base) = Some (File ls)" "JSON_parse (take 1000 ls) = None"
    using that by (simp add: load_file)
  have big: "loadSessionManifest pjoin fs base = defaultManifest"
    if "nodes fs (manifestPath pjoin base) = Some (File (JSON_stringify m))" "1000 < json_lines m"
    using that by (simp add: load_file JSON_parse_take_stringify)
  have init: "nodes (recordTopic pjoin now a fs) (manifestPath pjoin base)
               = Some (File (JSON_stringify
                   \<lparr> activeSessions = (if t = ''__proto__'' then [] else [(t, newSessionInfo now a)]),
                     archivedSessions = None, manifestVersion = ''2.0.0'' \<rparr>))"
    if "nodes fs (manifestPath pjoin base) = Some (File (JSON_stringify m))" "1000 < json_lines m"
      "manifestPath pjoin base \<notin> unwritable fs" "init_cacheDir a = base"
      "init_topic a = Some t" "t \<noteq> []"
    using that big [OF that(1) that(2)]
    by (simp add: recordTopic_def save_writable defaultManifest_def obj_set_Nil)
  have clean: "nodes (fst (snd (handleCleanupCache pjoin now c cs fs))) (manifestPath pjoin base)
               = Some (File (JSON_stringify
                   \<lparr> activeSessions = [], archivedSessions = None, manifestVersion = ''2.0.0'' \<rparr>))"
    if "nodes fs (manifestPath pjoin base) = Some (File (JSON_stringify m))" "1000 < json_lines m"
      "manifestPath pjoin base \<notin> unwritable fs" "cleanup_cacheDir c = base"
      "confirmCleanup c" "existsSync fs base"
  proof -
    have l: "loadSessionManifest pjoin fs (cleanup_cacheDir c) = defaultManifest"
      using big [OF that(1) that(2)] that(4) by simp
    have e: "existsSync fs (cleanup_cacheDir c)" using that by simp
    show ?thesis
      using cleanup_empty_manifest [OF l that(5) e, of now cs] that
      by (simp add: save_writable defaultManifest_def)
  qed
  show ?thesis using rd corrupt big init clean unfolding defaultManifest_def by blast
qed

theorem load_truncates_witness:
  "nodes bigFs (manifestPath slashJoin ''base'') = Some (File (JSON_stringify bigManifest))
   \<and> 1000 < json_lines bigManifest
   \<and> length (activeSessions bigManifest) = 200
   \<and> distinct (obj_keys (activeSessions bigManifest))
   \<and> JSON_parse (take 1000 (JSON_stringify bigManifest)) = None
   \<and> loadSessionManifest slashJoin bigFs ''base''
       = \<lparr> activeSessions = [], archivedSessions = None, manifestVersion = ''2.0.0'' \<rparr>
   \<and> nodes (recordTopic slashJoin 5000 demoInit bigFs) (manifestPath slashJoin ''base'')
       = Some (File (JSON_stringify
           \<lparr> activeSessions = [(''demo'', newSessionInfo 5000 demoInit)], archivedSessions = None,
             manifestVersion = ''2.0.0'' \<rparr>))
   \<and> nodes (fst (snd (handleCleanupCache slashJoin 5000 demoCleanup initialCacheState bigFs)))
         (manifestPath slashJoin ''base'')
       = Some (File (JSON_stringify
           \<lparr> activeSessions = [], archivedSessions = None, manifestVersion = ''2.0.0'' \<rparr>))"
proof -
  have f: "nodes bigFs (manifestPath slashJoin ''base'') = Some (File (JSON_stringify bigManifest))"
    by (simp add: bigFs_def manifestPath_def slashJoin_def)
  have b: "1000 < json_lines bigManifest" by code_simp
  have n: "length (activeSessions bigManifest) = 200" by (simp add: bigManifest_def)
  have d: "distinct (obj_keys (activeSessions bigManifest))"
    by (simp add: bigManifest_def obj_keys_def distinct_map inj_on_def comp_def)
  have p: "JSON_parse (take 1000 (JSON_stringify bigManifest)) = None"
    using b by (simp add: JSON_parse_take_stringify)
  have w: "manifestPath slashJoin ''base'' \<notin> unwritable bigFs" by (simp add: bigFs_def)
  have e: "existsSync bigFs ''base''" by (simp add: bigFs_def existsSync_def)
  have a: "init_cacheDir demoInit = ''base''" "init_topic demoInit = Some ''demo''"
    "cleanup_cacheDir demoCleanup = ''base''" "confirmCleanup demoCleanup"
    by (simp_all add: demoInit_def demoCleanup_def)
  from load_truncates [of bigFs slashJoin "''base''" "JSON_stringify bigManifest" bigManifest
         demoInit "''demo''" 5000 demoCleanup initialCacheState] f b p w e a n d
  show ?thesis by (simp add: defaultManifest_def)
qed

subsection \<open>archive\<close>

text \<open>
  Claim C2, as amended. Take a topic whose name is not that of a member inherited from
  \<open>Object.prototype\<close>. With \<open>confirmArchive = true\<close>, \<open>archive\<close> fails with a
  not-found error if and only if the topic directory does not exist or the topic is absent
  from \<open>activeSessions\<close> of the manifest it loads, and then changes nothing. When the
  directory exists and the topic is present, it moves the entry from \<open>activeSessions\<close> to
  \<open>archivedSessions\<close> with \<open>archivedAt = now\<close> in the manifest it saves (which replaces
  the manifest file when that file can be written), deletes the topic's per-topic
  auto-update entry, and, if the topic was the active topic, clears \<open>activeTopic\<close> and the
  global auto-update flag. No path other than the session manifest is touched.
\<close>

theorem archive_contract:
  assumes "confirmArchive args"
    and "topic = archive_topic args" and "base = archive_cacheDir args"
    and "dir = getCacheDirectory pjoin base (Some topic)"
    and "m = loadSessionManifest pjoin fs base"
    and "\<not> inherits proto topic"
  shows "(\<not> existsSync fs dir \<longrightarrow>
            handleArchiveCache pjoin proto now args cs fs
              = (cs, fs, ErrorResponse TopicDirectoryNotFound))
       \<and> (existsSync fs dir \<and> map_of (activeSessions m) topic = None \<longrightarrow>
            handleArchiveCache pjoin proto now args cs fs = (cs, fs, ErrorResponse TopicNotInManifest))
       \<and> ((\<exists>err. snd (snd (handleArchiveCache pjoin proto now args cs fs)) = ErrorResponse err)
            \<longleftrightarrow> \<not> existsSync fs dir \<or> map_of (activeSessions m) topic = None)
       \<and> (existsSync fs dir \<and> map_of (activeSessions m) topic = Some e \<longrightarrow>
            (\<exists>cs' m'.
               handleArchiveCache pjoin proto now args cs fs
                 = (cs', saveSessionManifest pjoin fs base m', Content ArchiveSuccess)
               \<and> map_of (activeSessions m') = (map_of (activeSessions m))(topic := None)
               \<and> map_of (archivedList m')
                    = (map_of (archivedList m))(topic \<mapsto> ArchivedSession (e\<lparr>archivedAt := Some now\<rparr>))
               \<and> manifestVersion m' = manifestVersion m
               \<and> (manifestPath pjoin base \<notin> unwritable fs
                    \<and> nodes fs (manifestPath pjoin base) \<noteq> Some Dir \<longrightarrow>
                    nodes (saveSessionManifest pjoin fs base m') (manifestPath pjoin base)
                      = Some (File (JSON_stringify m')))
               \<and> (\<forall>q. q \<noteq> manifestPath pjoin base \<longrightarrow>
                      nodes (saveSessionManifest pjoin fs base m') q = nodes fs q)
               \<and> topicAutoUpdateSettings cs' = (topicAutoUpdateSettings cs)(topic := None)
               \<and> (activeTopic cs = Some topic \<longrightarrow>
                      activeTopic cs' = None \<and> autoUpdateEnabled cs' = False)
               \<and> (activeTopic cs \<noteq> Some topic \<longrightarrow>
                      activeTopic cs' = activeTopic cs
                      \<and> autoUpdateEnabled cs' = autoUpdateEnabled cs)))"
proof -
  have np: "topic \<noteq> ''__proto__''"
    using assms(6) by (auto simp: inherits_def protoMembers_def)
  have nodir: "handleArchiveCache pjoin proto now args cs fs
      = (cs, fs, ErrorResponse TopicDirectoryNotFound)"
    if "\<not> existsSync fs dir"
    using that assms by (simp add: handleArchiveCache_def Let_def)
  have absent: "handleArchiveCache pjoin proto now args cs fs = (cs, fs, ErrorResponse TopicNotInManifest)"
    if "existsSync fs dir" "map_of (activeSessions m) topic = None"
  proof -
    have "obj_get proto (activeSessions m) topic = Undefined"
      using that(2) assms(6) by (rule obj_get_undefined)
    then show ?thesis using that assms by (simp add: handleArchiveCache_def Let_def)
  qed
  have present: "\<exists>cs' m'.
               handleArchiveCache pjoin proto now args cs fs
                 = (cs', saveSessionManifest pjoin fs base m', Content ArchiveSuccess)
               \<and> map_of (activeSessions m') = (map_of (activeSessions m))(topic := None)
               \<and> map_of (archivedList m')
                    = (map_of (archivedList m))(topic \<mapsto> ArchivedSession (e\<lparr>archivedAt := Some now\<rparr>))
               \<and> manifestVersion m' = manifestVersion m
               \<and> (manifestPath pjoin base \<notin> unwritable fs
                    \<and> nodes fs (manifestPath pjoin base) \<noteq> Some Dir \<longrightarrow>
                    nodes (saveSessionManifest pjoin fs base m') (manifestPath pjoin base)
                      = Some (File (JSON_stringify m')))
               \<and> (\<forall>q. q \<noteq> manifestPath pjoin base \<longrightarrow>
                      nodes (saveSessionManifest pjoin fs base m') q = nodes fs q)
               \<and> topicAutoUpdateSettings cs' = (topicAutoUpdateSettings cs)(topic := None)
               \<and> (activeTopic cs = Some topic \<longrightarrow>
                      activeTopic cs' = None \<and> autoUpdateEnabled cs' = False)
               \<and> (activeTopic cs \<noteq> Some topic \<longrightarrow>
                      activeTopic cs' = activeTopic cs
                      \<and> autoUpdateEnabled cs' = autoUpdateEnabled cs)"
    if h: "existsSync fs dir" "map_of (activeSessions m) topic = Some e" for e
  proof -
    let ?m' = "m\<lparr> archivedSessions := Some (obj_set topic (ArchivedSession (e\<lparr>archivedAt := Some now\<rparr>))
                                             (archivedList m)),
                    activeSessions := obj_delete topic (activeSessions m) \<rparr>"
    let ?cs1 = "cs\<lparr>topicAutoUpdateSettings := (topicAutoUpdateSettings cs)(topic := None)\<rparr>"
    let ?cs' = "if activeTopic cs = Some topic
                then ?cs1\<lparr>activeTopic := None, autoUpdateEnabled := False\<rparr> else ?cs1"
    have g: "obj_get proto (activeSessions m) topic = Own e"
      using h(2) by (rule obj_get_own)
    have r: "handleArchiveCache pjoin proto now args cs fs
                 = (?cs', saveSessionManifest pjoin fs base ?m', Content ArchiveSuccess)"
      using h(1) g assms(1-5) by (simp add: handleArchiveCache_def Let_def archivedList_def)
    have m: "map_of (activeSessions ?m') = (map_of (activeSessions m))(topic := None)"
      "map_of (archivedList ?m')
         = (map_of (archivedList m))(topic \<mapsto> ArchivedSession (e\<lparr>archivedAt := Some now\<rparr>))"
      "manifestVersion ?m' = manifestVersion m"
      using np by (simp_all add: map_of_obj_delete map_of_obj_set archivedList_def)
    have f: "manifestPath pjoin base \<notin> unwritable fs
                    \<and> nodes fs (manifestPath pjoin base) \<noteq> Some Dir \<longrightarrow>
                    nodes (saveSessionManifest pjoin fs base ?m') (manifestPath pjoin base)
                      = Some (File (JSON_stringify ?m'))"
      by (simp add: save_writable)
    have o: "\<forall>q. q \<noteq> manifestPath pjoin base \<longrightarrow>
                      nodes (saveSessionManifest pjoin fs base ?m') q = nodes fs q"
      by (simp add: nodes_save_other)
    have c: "topicAutoUpdateSettings ?cs' = (topicAutoUpdateSettings cs)(topic := None)"
      "activeTopic cs = Some topic \<longrightarrow> activeTopic ?cs' = None \<and> autoUpdateEnabled ?cs' = False"
      "activeTopic cs \<noteq> Some topic \<longrightarrow>
          activeTopic ?cs' = activeTopic cs \<and> autoUpdateEnabled ?cs' = autoUpdateEnabled cs"
      by simp_all
    show ?thesis
      apply (rule exI [of _ ?cs'])
      apply (rule exI [of _ ?m'])
      using r m f o c by blast
  qed
  have iff: "(\<exists>err. snd (snd (handleArchiveCache pjoin proto now args cs fs)) = ErrorResponse err)
            \<longleftrightarrow> \<not> existsSync fs dir \<or> map_of (activeSessions m) topic = None"
  proof (cases "existsSync fs dir")
    case False
    then show ?thesis using nodir by simp
  next
    case True
    show ?thesis
    proof (cases "map_of (activeSessions m) topic")
      case None
      then show ?thesis using True absent by simp
    next
      case (Some e)
      from present [OF True Some] obtain cs' fs' where
        "handleArchiveCache pjoin proto now args cs fs = (cs', fs', Content ArchiveSuccess)"
        by blast
      then show ?thesis using True Some by simp
    qed
  qed
  show ?thesis using nodir absent iff present by blast
qed

theorem archive_contract_witness:
  "confirmArchive demoArchive
   \<and> \<not> inherits freshPrototype ''demo''
   \<and> existsSync (snd afterInit) ''base/demo''
   \<and> map_of (activeSessions (loadSessionManifest slashJoin (snd afterInit) ''base'')) ''demo''
       = Some demoInfo
   \<and> snd (snd (handleArchiveCache slashJoin freshPrototype 2000 demoArchive (fst afterInit) (snd afterInit)))
       = Content ArchiveSuccess
   \<and> map_of (activeSessions (loadSessionManifest slashJoin
         (fst (snd (handleArchiveCache slashJoin freshPrototype 2000 demoArchive (fst afterInit) (snd afterInit))))
         ''base'')) ''demo'' = None
   \<and> map_of (archivedList (loadSessionManifest slashJoin
         (fst (snd (handleArchiveCache slashJoin freshPrototype 2000 demoArchive (fst afterInit) (snd afterInit))))
         ''base'')) ''demo'' = Some (ArchivedSession (demoInfo\<lparr>archivedAt := Some 2000\<rparr>))
   \<and> \<not> existsSync orphanFs ''base/demo''
   \<and> handleArchiveCache slashJoin freshPrototype 2000 demoArchive (fst afterInit) orphanFs
       = (fst afterInit, orphanFs, ErrorResponse TopicDirectoryNotFound)
   \<and> map_of (activeSessions (loadSessionManifest slashJoin (snd afterInit) ''base'')) ''ghost'' = None
   \<and> existsSync ghostFs ''base/ghost''
   \<and> handleArchiveCache slashJoin freshPrototype 2000 ghostArchive (fst afterInit) ghostFs
       = (fst afterInit, ghostFs, ErrorResponse TopicNotInManifest)"
proof -
  let ?m = "loadSessionManifest slashJoin (snd afterInit) ''base''"
  let ?h = "handleArchiveCache slashJoin freshPrototype 2000 demoArchive (fst afterInit) (snd afterInit)"
  have c: "confirmArchive demoArchive" "''demo'' = archive_topic demoArchive"
    "''base'' = archive_cacheDir demoArchive"
    "''base/demo'' = getCacheDirectory slashJoin ''base'' (Some ''demo'')"
    by (simp_all add: demoArchive_def getCacheDirectory_def slashJoin_def)
  have g: "confirmArchive ghostArchive" "''ghost'' = archive_topic ghostArchive"
    "''base'' = archive_cacheDir ghostArchive"
    "''base/ghost'' = getCacheDirectory slashJoin ''base'' (Some ''ghost'')"
    by (simp_all add: ghostArchive_def getCacheDirectory_def slashJoin_def)
  have i: "\<not> inherits freshPrototype ''demo''" "\<not> inherits freshPrototype ''ghost''"
    by (simp_all add: inherits_def protoMembers_def freshPrototype_def)
  have e: "existsSync (snd afterInit) ''base/demo''" by code_simp
  have p: "map_of (activeSessions ?m) ''demo'' = Some demoInfo" by code_simp
  have ne: "\<not> existsSync orphanFs ''base/demo''" by (simp add: orphanFs_def existsSync_def)
  have ge: "existsSync ghostFs ''base/ghost''" by (simp add: ghostFs_def existsSync_def)
  have gm: "loadSessionManifest slashJoin ghostFs ''base'' = ?m"
    by (rule load_cong) (simp add: ghostFs_def manifestPath_def slashJoin_def)
  have gp: "map_of (activeSessions ?m) ''ghost'' = None" by code_simp
  from archive_contract [OF c refl i(1), of "snd afterInit" 2000 "fst afterInit" demoInfo] e p
  have r: "snd (snd ?h) = Content ArchiveSuccess" by auto
  from archive_contract [OF c refl i(1), of orphanFs 2000 "fst afterInit" demoInfo] ne
  have o: "handleArchiveCache slashJoin freshPrototype 2000 demoArchive (fst afterInit) orphanFs
       = (fst afterInit, orphanFs, ErrorResponse TopicDirectoryNotFound)" by simp
  from archive_contract [OF g refl i(2), of ghostFs 2000 "fst afterInit" demoInfo] ge gp gm
  have n: "handleArchiveCache slashJoin freshPrototype 2000 ghostArchive (fst afterInit) ghostFs
       = (fst afterInit, ghostFs, ErrorResponse TopicNotInManifest)" by simp
  have a1: "map_of (activeSessions (loadSessionManifest slashJoin (fst (snd ?h)) ''base'')) ''demo'' = None"
    by code_simp
  have a2: "map_of (archivedList (loadSessionManifest slashJoin (fst (snd ?h)) ''base'')) ''demo''
      = Some (ArchivedSession (demoInfo\<lparr>archivedAt := Some 2000\<rparr>))"
    by code_simp
  show ?thesis using c(1) i(1) e p r a1 a2 ne o gp ge n by simp
qed

text \<open>
  Claim C2 as stated fails: a topic present in \<open>activeSessions\<close> whose directory is
  missing is not moved; \<open>archive\<close> answers with the not-found error of its directory
  check.
\<close>

theorem archive_present_counterexample:
  "confirmArchive demoArchive
   \<and> map_of (activeSessions (loadSessionManifest slashJoin orphanFs (archive_cacheDir demoArchive)))
        (archive_topic demoArchive) = Some demoInfo
   \<and> handleArchiveCache slashJoin freshPrototype 2000 demoArchive (fst afterInit) orphanFs
       = (fst afterInit, orphanFs, ErrorResponse TopicDirectoryNotFound)"
proof -
  have c: "confirmArchive demoArchive" by (simp add: demoArchive_def)
  have p: "map_of (activeSessions (loadSessionManifest slashJoin orphanFs (archive_cacheDir demoArchive)))
        (archive_topic demoArchive) = Some demoInfo"
    by code_simp
  have ne: "\<not> existsSync orphanFs ''base/demo''" by (simp add: orphanFs_def existsSync_def)
  then have "handleArchiveCache slashJoin freshPrototype 2000 demoArchive (fst afterInit) orphanFs
       = (fst afterInit, orphanFs, ErrorResponse TopicDirectoryNotFound)"
    by (simp add: handleArchiveCache_def demoArchive_def getCacheDirectory_def slashJoin_def)
  with c p show ?thesis by simp
qed

subsection \<open>cleanup\<close>








lemma sortByLastUsed_set [simp]: "set (sortByLastUsed xs) = set xs"
  by (simp add: sortByLastUsed_def)


lemma nth_mem_rev: "i < length xs \<Longrightarrow> xs ! i = x \<Longrightarrow> x \<in> set xs"
  by auto



subsection \<open>Topics named like object members or array indices\<close>

text \<open>A second \<open>archive\<close> of a topic named \<open>constructor\<close> finds the inherited member,
  answers with success and overwrites the archived record with one that holds
  \<open>archivedAt\<close> alone.\<close>

lemma archive_inherited_member:
  "map_of (activeSessions (loadSessionManifest slashJoin (snd constructorArchived) ''base''))
     ''constructor'' = None
   \<and> inherits freshPrototype ''constructor''
   \<and> snd (snd (handleArchiveCache slashJoin freshPrototype 3000 (topicArchive ''constructor'')
                  (fst constructorArchived) (snd constructorArchived)))
       = Content ArchiveSuccess
   \<and> archivedSessions (loadSessionManifest slashJoin
         (fst (snd (handleArchiveCache slashJoin freshPrototype 3000 (topicArchive ''constructor'')
                      (fst constructorArchived) (snd constructorArchived)))) ''base'')
       = Some [(''constructor'', ArchivedObject None 3000)]"
  by code_simp

text \<open>\<open>init\<close> of a topic named \<open>__proto__\<close> creates the directory and the files and
  records no entry; an \<open>update\<close> of that topic then sets \<open>lastUsed\<close> on
  \<open>Object.prototype\<close>, after which every object inherits a member \<open>lastUsed\<close>.\<close>

lemma proto_topic_not_recorded:
  "existsSync (snd protoInitialised) ''base/__proto__''
   \<and> activeTopic (fst protoInitialised) = Some ''__proto__''
   \<and> activeSessions (loadSessionManifest slashJoin (snd protoInitialised) ''base'') = []
   \<and> snd (snd (handleUpdateCache slashJoin freshPrototype 2000 activeUpdate
                  (fst protoInitialised) (snd protoInitialised)))
       = Content UpdateSuccess
   \<and> \<not> inherits freshPrototype ''lastUsed''
   \<and> inherits (prototypeAfterUpdate slashJoin freshPrototype 2000 activeUpdate
                  (fst protoInitialised) (snd protoInitialised)) ''lastUsed''"
  by code_simp

text \<open>Topics whose names are array indices are enumerated before the others, in numeric
  order, whatever the order in which they were initialised.\<close>

lemma index_topics_first:
  "obj_keys (activeSessions (loadSessionManifest slashJoin (snd indexTopics) ''base''))
     = [''2'', ''10'', ''b'']"
  by code_simp

subsection \<open>Error propagation\<close>

lemma createDirectory_unwritable:
  "createDirectory fs p = Some fs' \<Longrightarrow> unwritable fs' = unwritable fs"
  by (auto simp: createDirectory_def split: option.splits node.splits if_splits)

lemma createCacheDirectories_unwritable:
  "unwritable (fst (createCacheDirectories pjoin a fs)) = unwritable fs"
  by (auto simp: createCacheDirectories_def Let_def split: option.splits
        dest: createDirectory_unwritable)

lemma recordTopic_unwritable:
  "manifestPath pjoin (init_cacheDir a) \<in> unwritable fs \<Longrightarrow> recordTopic pjoin ts a fs = fs"
  by (simp add: recordTopic_def save_unwritable split: option.splits)

lemma touch_unwritable:
  "manifestPath pjoin b \<in> unwritable fs \<Longrightarrow> fst (touchLastUsed pjoin proto ts b t fs) = fs"
  by (simp add: touchLastUsed_def Let_def save_unwritable split: property.splits)

lemma cleanup_response:
  "confirmCleanup c \<Longrightarrow> existsSync fs (cleanup_cacheDir c) \<Longrightarrow>
     \<exists>cs' m' cl pr. handleCleanupCache pjoin now c cs fs
       = (cs', saveSessionManifest pjoin fs (cleanup_cacheDir c) m', Content (CleanupComplete cl pr))"
  by (auto simp: handleCleanupCache_def Let_def split: prod.splits)

text \<open>
  Claim C8, as amended. The synchronous operations surface a failure to create a
  directory and a failure to write a cache file (\<open>init\<close>, \<open>update\<close>) as an error response.
  A manifest that cannot be parsed is replaced by the empty default without an error. A
  failure to write the session manifest is not surfaced: \<open>saveSessionManifest\<close> catches
  it and leaves the file system as it is, and \<open>init\<close>, \<open>update\<close>, \<open>archive\<close> and
  \<open>cleanup\<close> go on to report success.
\<close>

theorem manifest_write_failure_swallowed:
  "(writeFile fs (manifestPath pjoin base) (JSON_stringify m) Rewrite = None \<longrightarrow>
      saveSessionManifest pjoin fs base m = fs)
   \<and> (nodes fs (manifestPath pjoin base) = Some (File ls) \<and> JSON_parse (take 1000 ls) = None \<longrightarrow>
        loadSessionManifest pjoin fs base = defaultManifest)
   \<and> (\<not> snd (createCacheDirectories pjoin a fs) \<longrightarrow>
        snd (snd (initCacheBody pjoin now a cs fs)) = ErrorResponse CreateDirectoryFailed)
   \<and> (snd (createCacheDirectories pjoin a fs)
        \<and> \<not> snd (writeFiles (recordTopic pjoin now a (fst (createCacheDirectories pjoin a fs)))
                   (initWrites pjoin now a)) \<longrightarrow>
        snd (snd (initCacheBody pjoin now a cs fs)) = ErrorResponse InitFailed)
   \<and> (snd (createCacheDirectories pjoin a fs)
        \<and> manifestPath pjoin (init_cacheDir a) \<in> unwritable fs
        \<and> snd (writeFiles (fst (createCacheDirectories pjoin a fs)) (initWrites pjoin now a)) \<longrightarrow>
        fst (snd (initCacheBody pjoin now a cs fs))
          = fst (writeFiles (fst (createCacheDirectories pjoin a fs)) (initWrites pjoin now a))
        \<and> snd (snd (initCacheBody pjoin now a cs fs)) = Content InitSuccess)
   \<and> (isInitialized cs
        \<and> existsSync fs (getCacheDirectory pjoin (cacheDir cs) (resolveTarget (update_topic u) cs))
        \<and> \<not> snd (writeFiles fs (updateWrites pjoin
                (getCacheDirectory pjoin (cacheDir cs) (resolveTarget (update_topic u) cs))
                now (resolveTarget (update_topic u) cs) u)) \<longrightarrow>
        snd (snd (handleUpdateCache pjoin proto now u cs fs)) = ErrorResponse UpdateFailed)
   \<and> (isInitialized cs
        \<and> existsSync fs (getCacheDirectory pjoin (cacheDir cs) (resolveTarget (update_topic u) cs))
        \<and> manifestPath pjoin (cacheDir cs) \<in> unwritable fs
        \<and> snd (writeFiles fs (updateWrites pjoin
                (getCacheDirectory pjoin (cacheDir cs) (resolveTarget (update_topic u) cs))
                now (resolveTarget (update_topic u) cs) u)) \<longrightarrow>
        fst (snd (handleUpdateCache pjoin proto now u cs fs))
          = fst (writeFiles fs (updateWrites pjoin
                (getCacheDirectory pjoin (cacheDir cs) (resolveTarget (update_topic u) cs))
                now (resolveTarget (update_topic u) cs) u))
        \<and> snd (snd (handleUpdateCache pjoin proto now u cs fs)) = Content UpdateSuccess)
   \<and> (confirmArchive r
        \<and> existsSync fs (getCacheDirectory pjoin (archive_cacheDir r) (Some (archive_topic r)))
        \<and> map_of (activeSessions (loadSessionManifest pjoin fs (archive_cacheDir r))) (archive_topic r)
             \<noteq> None
        \<and> manifestPath pjoin (archive_cacheDir r) \<in> unwritable fs \<longrightarrow>
        fst (snd (handleArchiveCache pjoin proto now r cs fs)) = fs
        \<and> snd (snd (handleArchiveCache pjoin proto now r cs fs)) = Content ArchiveSuccess)
   \<and> (confirmCleanup c \<and> existsSync fs (cleanup_cacheDir c)
        \<and> manifestPath pjoin (cleanup_cacheDir c) \<in> unwritable fs \<longrightarrow>
        fst (snd (handleCleanupCache pjoin now c cs fs)) = fs
        \<and> (\<exists>cl pr. snd (snd (handleCleanupCache pjoin now c cs fs)) = Content (CleanupComplete cl pr)))"
proof -
  have save: "writeFile fs (manifestPath pjoin base) (JSON_stringify m) Rewrite = None \<longrightarrow>
      saveSessionManifest pjoin fs base m = fs"
    by (simp add: saveSessionManifest_def)
  have load: "nodes fs (manifestPath pjoin base) = Some (File ls) \<and> JSON_parse (take 1000 ls) = None \<longrightarrow>
        loadSessionManifest pjoin fs base = defaultManifest"
    by (simp add: load_file)
  have i1: "\<not> snd (createCacheDirectories pjoin a fs) \<longrightarrow>
        snd (snd (initCacheBody pjoin now a cs fs)) = ErrorResponse CreateDirectoryFailed"
    by (simp add: initCacheBody_def split: prod.splits)
  have i2: "snd (createCacheDirectories pjoin a fs)
        \<and> \<not> snd (writeFiles (recordTopic pjoin now a (fst (createCacheDirectories pjoin a fs)))
                   (initWrites pjoin now a)) \<longrightarrow>
        snd (snd (initCacheBody pjoin now a cs fs)) = ErrorResponse InitFailed"
    by (simp add: initCacheBody_def Let_def split: prod.splits)
  have i3: "fst (snd (initCacheBody pjoin now a cs fs))
          = fst (writeFiles (fst (createCacheDirectories pjoin a fs)) (initWrites pjoin now a))
        \<and> snd (snd (initCacheBody pjoin now a cs fs)) = Content InitSuccess"
    if h: "snd (createCacheDirectories pjoin a fs)"
      "manifestPath pjoin (init_cacheDir a) \<in> unwritable fs"
      "snd (writeFiles (fst (createCacheDirectories pjoin a fs)) (initWrites pjoin now a))"
  proof -
    have "manifestPath pjoin (init_cacheDir a) \<in> unwritable (fst (createCacheDirectories pjoin a fs))"
      using h(2) by (simp add: createCacheDirectories_unwritable)
    then have "recordTopic pjoin now a (fst (createCacheDirectories pjoin a fs))
               = fst (createCacheDirectories pjoin a fs)"
      by (rule recordTopic_unwritable)
    then show ?thesis using h(1) h(3)
      by (simp add: initCacheBody_def Let_def case_prod_beta)
  qed
  have u1: "isInitialized cs
        \<and> existsSync fs (getCacheDirectory pjoin (cacheDir cs) (resolveTarget (update_topic u) cs))
        \<and> \<not> snd (writeFiles fs (updateWrites pjoin
                (getCacheDirectory pjoin (cacheDir cs) (resolveTarget (update_topic u) cs))
                now (resolveTarget (update_topic u) cs) u)) \<longrightarrow>
        snd (snd (handleUpdateCache pjoin proto now u cs fs)) = ErrorResponse UpdateFailed"
    by (simp add: handleUpdateCache_def Let_def split: prod.splits)
  have u2: "fst (snd (handleUpdateCache pjoin proto now u cs fs))
          = fst (writeFiles fs (updateWrites pjoin
                (getCacheDirectory pjoin (cacheDir cs) (resolveTarget (update_topic u) cs))
                now (resolveTarget (update_topic u) cs) u))
        \<and> snd (snd (handleUpdateCache pjoin proto now u cs fs)) = Content UpdateSuccess"
    if h: "isInitialized cs"
      "existsSync fs (getCacheDirectory pjoin (cacheDir cs) (resolveTarget (update_topic u) cs))"
      "manifestPath pjoin (cacheDir cs) \<in> unwritable fs"
      "snd (writeFiles fs (updateWrites pjoin
                (getCacheDirectory pjoin (cacheDir cs) (resolveTarget (update_topic u) cs))
                now (resolveTarget (update_topic u) cs) u))"
  proof -
    let ?W = "updateWrites pjoin
                (getCacheDirectory pjoin (cacheDir cs) (resolveTarget (update_topic u) cs))
                now (resolveTarget (update_topic u) cs) u"
    obtain fs1 ok where w: "writeFiles fs ?W = (fs1, ok)" by (cases "writeFiles fs ?W")
    then have ok: "ok" using h(4) by simp
    have "manifestPath pjoin (cacheDir cs) \<in> unwritable fs1"
      using writeFiles_unwritable [OF w] h(3) by simp
    then have "\<And>t. fst (touchLastUsed pjoin proto now (cacheDir cs) t fs1) = fs1"
      by (rule touch_unwritable)
    then show ?thesis using h(1) h(2) w ok
      by (simp add: handleUpdateCache_def Let_def split: option.splits)
  qed
  have ar: "fst (snd (handleArchiveCache pjoin proto now r cs fs)) = fs
        \<and> snd (snd (handleArchiveCache pjoin proto now r cs fs)) = Content ArchiveSuccess"
    if "confirmArchive r"
      "existsSync fs (getCacheDirectory pjoin (archive_cacheDir r) (Some (archive_topic r)))"
      "map_of (activeSessions (loadSessionManifest pjoin fs (archive_cacheDir r))) (archive_topic r) \<noteq> None"
      "manifestPath pjoin (archive_cacheDir r) \<in> unwritable fs"
    using that by (auto simp: handleArchiveCache_def Let_def save_unwritable obj_get_own)
  have cl: "fst (snd (handleCleanupCache pjoin now c cs fs)) = fs
        \<and> (\<exists>cl pr. snd (snd (handleCleanupCache pjoin now c cs fs)) = Content (CleanupComplete cl pr))"
    if h: "confirmCleanup c" "existsSync fs (cleanup_cacheDir c)"
      "manifestPath pjoin (cleanup_cacheDir c) \<in> unwritable fs"
  proof -
    from cleanup_response [OF h(1) h(2), of pjoin now cs] obtain cs' m' cl pr where
      "handleCleanupCache pjoin now c cs fs
       = (cs', saveSessionManifest pjoin fs (cleanup_cacheDir c) m', Content (CleanupComplete cl pr))"
      by blast
    then show ?thesis using h(3) by (simp add: save_unwritable)
  qed
  show ?thesis using save load i1 i2 i3 u1 u2 ar cl by blast
qed

theorem manifest_write_failure_swallowed_witness:
  "writeFile readonlyFs (manifestPath slashJoin ''base'') (JSON_stringify defaultManifest) Rewrite = None
   \<and> saveSessionManifest slashJoin readonlyFs ''base'' defaultManifest = readonlyFs
   \<and> JSON_parse (take 1000 []) = None
   \<and> loadSessionManifest slashJoin corruptFs ''base'' = defaultManifest
   \<and> \<not> snd (createCacheDirectories slashJoin demoInit noDirFs)
   \<and> snd (snd (initCacheBody slashJoin 1000 demoInit initialCacheState noDirFs))
       = ErrorResponse CreateDirectoryFailed
   \<and> snd (createCacheDirectories slashJoin demoInit noStepsFs)
   \<and> snd (snd (initCacheBody slashJoin 1000 demoInit initialCacheState noStepsFs))
       = ErrorResponse InitFailed
   \<and> manifestPath slashJoin (init_cacheDir demoInit) \<in> unwritable readonlyFs
   \<and> snd (snd (initCacheBody slashJoin 1000 demoInit initialCacheState readonlyFs))
       = Content InitSuccess
   \<and> snd (snd (handleUpdateCache slashJoin freshPrototype 2000 demoUpdate (fst afterInit) noLogFs))
       = ErrorResponse UpdateFailed
   \<and> manifestPath slashJoin (cacheDir (fst afterInit)) \<in> unwritable lockedFs
   \<and> snd (snd (handleUpdateCache slashJoin freshPrototype 2000 demoUpdate (fst afterInit) lockedFs))
       = Content UpdateSuccess
   \<and> fst (snd (handleArchiveCache slashJoin freshPrototype 2000 demoArchive (fst afterInit) lockedFs)) = lockedFs
   \<and> snd (snd (handleArchiveCache slashJoin freshPrototype 2000 demoArchive (fst afterInit) lockedFs))
       = Content ArchiveSuccess
   \<and> fst (snd (handleCleanupCache slashJoin 2000 demoCleanup (fst afterInit) lockedFs)) = lockedFs"
proof -
  note T = manifest_write_failure_swallowed [where pjoin = slashJoin and proto = freshPrototype]
  have s1: "writeFile readonlyFs (manifestPath slashJoin ''base'') (JSON_stringify defaultManifest) Rewrite = None"
    by (simp add: writeFile_def readonlyFs_def manifestPath_def slashJoin_def)
  have s2: "saveSessionManifest slashJoin readonlyFs ''base'' defaultManifest = readonlyFs"
    using T [where fs = readonlyFs and base = "''base''" and m = defaultManifest] s1 by blast
  have l1: "nodes corruptFs (manifestPath slashJoin ''base'') = Some (File [])"
    "JSON_parse (take 1000 []) = None"
    by (simp_all add: corruptFs_def manifestPath_def slashJoin_def JSON_parse_def)
  have l2: "loadSessionManifest slashJoin corruptFs ''base'' = defaultManifest"
    using T [where fs = corruptFs and base = "''base''" and ls = "[]"] l1 by blast
  have d1: "\<not> snd (createCacheDirectories slashJoin demoInit noDirFs)" by code_simp
  have d2: "snd (snd (initCacheBody slashJoin 1000 demoInit initialCacheState noDirFs))
       = ErrorResponse CreateDirectoryFailed"
    using T [where fs = noDirFs and a = demoInit and now = 1000 and cs = initialCacheState] d1
    by blast
  have w1: "snd (createCacheDirectories slashJoin demoInit noStepsFs)"
    "\<not> snd (writeFiles (recordTopic slashJoin 1000 demoInit
                (fst (createCacheDirectories slashJoin demoInit noStepsFs)))
             (initWrites slashJoin 1000 demoInit))"
    by code_simp+
  have w2: "snd (snd (initCacheBody slashJoin 1000 demoInit initialCacheState noStepsFs))
       = ErrorResponse InitFailed"
    using T [where fs = noStepsFs and a = demoInit and now = 1000 and cs = initialCacheState] w1
    by blast
  have i1: "snd (createCacheDirectories slashJoin demoInit readonlyFs)"
    "manifestPath slashJoin (init_cacheDir demoInit) \<in> unwritable readonlyFs"
    "snd (writeFiles (fst (createCacheDirectories slashJoin demoInit readonlyFs))
           (initWrites slashJoin 1000 demoInit))"
    by code_simp+
  have i2: "snd (snd (initCacheBody slashJoin 1000 demoInit initialCacheState readonlyFs))
       = Content InitSuccess"
    using T [where fs = readonlyFs and a = demoInit and now = 1000 and cs = initialCacheState] i1
    by blast
  have u0: "isInitialized (fst afterInit)" by code_simp
  have u1: "existsSync noLogFs (getCacheDirectory slashJoin (cacheDir (fst afterInit))
                (resolveTarget (update_topic demoUpdate) (fst afterInit)))"
    "\<not> snd (writeFiles noLogFs (updateWrites slashJoin
                (getCacheDirectory slashJoin (cacheDir (fst afterInit))
                   (resolveTarget (update_topic demoUpdate) (fst afterInit)))
                2000 (resolveTarget (update_topic demoUpdate) (fst afterInit)) demoUpdate))"
    by code_simp+
  have u2: "snd (snd (handleUpdateCache slashJoin freshPrototype 2000 demoUpdate (fst afterInit) noLogFs))
       = ErrorResponse UpdateFailed"
    using T [where fs = noLogFs and u = demoUpdate and now = 2000 and cs = "fst afterInit"] u0 u1
    by blast
  have v1: "existsSync lockedFs (getCacheDirectory slashJoin (cacheDir (fst afterInit))
                (resolveTarget (update_topic demoUpdate) (fst afterInit)))"
    "manifestPath slashJoin (cacheDir (fst afterInit)) \<in> unwritable lockedFs"
    "snd (writeFiles lockedFs (updateWrites slashJoin
                (getCacheDirectory slashJoin (cacheDir (fst afterInit))
                   (resolveTarget (update_topic demoUpdate) (fst afterInit)))
                2000 (resolveTarget (update_topic demoUpdate) (fst afterInit)) demoUpdate))"
    by code_simp+
  have v2: "snd (snd (handleUpdateCache slashJoin freshPrototype 2000 demoUpdate (fst afterInit) lockedFs))
       = Content UpdateSuccess"
    using T [where fs = lockedFs and u = demoUpdate and now = 2000 and cs = "fst afterInit"] u0 v1
    by blast
  have a1: "confirmArchive demoArchive"
    "existsSync lockedFs (getCacheDirectory slashJoin (archive_cacheDir demoArchive)
        (Some (archive_topic demoArchive)))"
    "map_of (activeSessions (loadSessionManifest slashJoin lockedFs (archive_cacheDir demoArchive)))
        (archive_topic demoArchive) \<noteq> None"
    "manifestPath slashJoin (archive_cacheDir demoArchive) \<in> unwritable lockedFs"
    by code_simp+
  have a2: "fst (snd (handleArchiveCache slashJoin freshPrototype 2000 demoArchive (fst afterInit) lockedFs)) = lockedFs
        \<and> snd (snd (handleArchiveCache slashJoin freshPrototype 2000 demoArchive (fst afterInit) lockedFs))
            = Content ArchiveSuccess"
    using T [where fs = lockedFs and r = demoArchive and now = 2000 and cs = "fst afterInit"] a1
    by blast
  have c1: "confirmCleanup demoCleanup" "existsSync lockedFs (cleanup_cacheDir demoCleanup)"
    "manifestPath slashJoin (cleanup_cacheDir demoCleanup) \<in> unwritable lockedFs"
    by code_simp+
  have c2: "fst (snd (handleCleanupCache slashJoin 2000 demoCleanup (fst afterInit) lockedFs)) = lockedFs"
    using T [where fs = lockedFs and c = demoCleanup and now = 2000 and cs = "fst afterInit"] c1
    by blast
  show ?thesis using s1 s2 l1(2) l2 d1 d2 w1(1) w2 i1(2) i2 u2 v1(2) v2 a2 c2 by blast
qed

text \<open>
  Claim C8 as stated fails: where the manifest file cannot be written, \<open>init\<close> of a
  topic answers with the success message, and no manifest is on disk afterwards.
\<close>

theorem init_swallows_manifest_failure_counterexample:
  "writeFile (fst (createCacheDirectories slashJoin demoInit readonlyFs))
       (manifestPath slashJoin (init_cacheDir demoInit))
       (JSON_stringify (defaultManifest\<lparr>activeSessions := [(''demo'', newSessionInfo 1000 demoInit)]\<rparr>))
       Rewrite = None
   \<and> snd (snd (handleInitCache slashJoin 1000 demoInit initialCacheState readonlyFs))
       = Content InitSuccess
   \<and> \<not> existsSync (fst (snd (handleInitCache slashJoin 1000 demoInit initialCacheState readonlyFs)))
         (manifestPath slashJoin (init_cacheDir demoInit))"
  by code_simp

subsection \<open>The manifest invariant\<close>


lemma disjoint_default [simp]: "disjointSessions defaultManifest"
  by (simp add: disjointSessions_def defaultManifest_def obj_keys_def)











lemma archivedKeys_active_update [simp]:
  "archivedKeys (m\<lparr>activeSessions := xs\<rparr>) = archivedKeys m"
  by (simp add: archivedKeys_def)






















end
